theory Spec2Isabelle
  imports Complex_Main "HOL-Library.Sublist" "HOL-Library.DAList"
begin

section \<open>JavaScript values and string primitives\<close>

text \<open>
  The index rows and raw records of the repository are untyped (\<^verbatim>\<open>any\<close>) JavaScript
  objects. A property value is modelled by \<open>jsval\<close>, and an object is the map from its
  property names to their values, an absent property reading as \<^verbatim>\<open>undefined\<close>.
  Strings are lists of 8-bit code units (the Latin-1 range of JavaScript's code units).

  A number is NaN or an exact integer. This is what JavaScript has for the integers of
  magnitude up to 2^53, the range of every identifier and table id of the repository.
  Beyond it the model departs from JavaScript, which rounds to the nearest double and
  prints with an exponent from 1e21 on; numbers with a fraction are not represented.
\<close>

datatype jsnum = JNaN | JInt int

datatype jsval = JUndefined | JNull | JBool bool | JNum jsnum | JStr string

type_synonym jsrow = "string \<rightharpoonup> jsval"

definition getp :: "jsrow \<Rightarrow> string \<Rightarrow> jsval" where
  "getp row k = (case row k of None \<Rightarrow> JUndefined | Some v \<Rightarrow> v)"

text \<open>Truthiness (\<^verbatim>\<open>ToBoolean\<close>).\<close>

fun truthy :: "jsval \<Rightarrow> bool" where
  "truthy JUndefined = False"
| "truthy JNull = False"
| "truthy (JBool b) = b"
| "truthy (JNum JNaN) = False"
| "truthy (JNum (JInt n)) = (n \<noteq> 0)"
| "truthy (JStr s) = (s \<noteq> [])"

text \<open>\<^verbatim>\<open>a || b\<close> on values.\<close>

definition js_or :: "jsval \<Rightarrow> jsval \<Rightarrow> jsval" where
  "js_or a b = (if truthy a then a else b)"

text \<open>Strict equality \<^verbatim>\<open>===\<close>: NaN is not equal to itself.\<close>

fun strict_eq :: "jsval \<Rightarrow> jsval \<Rightarrow> bool" where
  "strict_eq (JNum JNaN) _ = False"
| "strict_eq _ (JNum JNaN) = False"
| "strict_eq a b = (a = b)"

definition digit_chars :: string where
  "digit_chars = ''0123456789''"

definition is_digit :: "char \<Rightarrow> bool" where
  "is_digit c = (c \<in> set digit_chars)"

text \<open>The white space that \<^verbatim>\<open>trim\<close> and \<^verbatim>\<open>parseInt\<close> skip: TAB, LF, VT, FF, CR, SP, NBSP.\<close>

definition is_ws :: "char \<Rightarrow> bool" where
  "is_ws c = (c \<in> set [CHR 0x09, CHR 0x0A, CHR 0x0B, CHR 0x0C, CHR 0x0D, CHR 0x20, CHR 0xA0])"

definition trim :: "string \<Rightarrow> string" where
  "trim s = rev (dropWhile is_ws (rev (dropWhile is_ws s)))"

text \<open>\<^verbatim>\<open>s.replace(/\D/g, '')\<close>.\<close>

definition strip_non_digits :: "string \<Rightarrow> string" where
  "strip_non_digits s = filter is_digit s"

text \<open>\<^verbatim>\<open>s.padStart(n, '0')\<close>: never truncates.\<close>

definition padStart0 :: "nat \<Rightarrow> string \<Rightarrow> string" where
  "padStart0 n s = replicate (n - length s) CHR ''0'' @ s"

text \<open>Decimal rendering of a number, as \<^verbatim>\<open>Number.prototype.toString\<close> gives for integers.\<close>

fun nat_digits :: "nat \<Rightarrow> string" where
  "nat_digits n = (if n < 10 then [digit_chars ! n] else nat_digits (n div 10) @ [digit_chars ! (n mod 10)])"

declare nat_digits.simps [simp del]

definition int_to_string :: "int \<Rightarrow> string" where
  "int_to_string i = (if i < 0 then CHR ''-'' # nat_digits (nat (- i)) else nat_digits (nat i))"

text \<open>\<^verbatim>\<open>String(v)\<close>; on a string or number it is what \<^verbatim>\<open>v.toString()\<close> returns.\<close>

fun js_toString :: "jsval \<Rightarrow> string" where
  "js_toString JUndefined = ''undefined''"
| "js_toString JNull = ''null''"
| "js_toString (JBool b) = (if b then ''true'' else ''false'')"
| "js_toString (JNum JNaN) = ''NaN''"
| "js_toString (JNum (JInt n)) = int_to_string n"
| "js_toString (JStr s) = s"

text \<open>
  \<^verbatim>\<open>parseInt(v)\<close> with no radix: the argument is converted to a string, leading white
  space and a sign are skipped, a \<^verbatim>\<open>0x\<close> prefix selects radix 16, and the longest prefix
  of digits is read; no digit gives NaN.
\<close>

fun index_of :: "'a \<Rightarrow> 'a list \<Rightarrow> nat option" where
  "index_of x [] = None"
| "index_of x (y # ys) = (if x = y then Some 0 else map_option Suc (index_of x ys))"

definition digit_value :: "nat \<Rightarrow> char \<Rightarrow> nat option" where
  "digit_value radix c =
     (case index_of c ''0123456789abcdef'' of
        Some d \<Rightarrow> if d < radix then Some d else None
      | None \<Rightarrow>
          (case index_of c ''ABCDEF'' of
             Some d \<Rightarrow> if d + 10 < radix then Some (d + 10) else None
           | None \<Rightarrow> None))"

fun radix_digits :: "nat \<Rightarrow> string \<Rightarrow> nat list" where
  "radix_digits radix [] = []"
| "radix_digits radix (c # cs) =
     (case digit_value radix c of None \<Rightarrow> [] | Some d \<Rightarrow> d # radix_digits radix cs)"

definition digits_value :: "nat \<Rightarrow> nat list \<Rightarrow> nat" where
  "digits_value radix ds = foldl (\<lambda>acc d. acc * radix + d) 0 ds"

definition parse_magnitude :: "string \<Rightarrow> jsnum" where
  "parse_magnitude s =
     (let (radix, body) =
            (if prefix ''0x'' s \<or> prefix ''0X'' s then (16, drop 2 s) else (10, s));
          ds = radix_digits radix body
      in if ds = [] then JNaN else JInt (int (digits_value radix ds)))"

definition jsnum_neg :: "jsnum \<Rightarrow> jsnum" where
  "jsnum_neg x = (case x of JNaN \<Rightarrow> JNaN | JInt n \<Rightarrow> JInt (- n))"

definition parseInt_string :: "string \<Rightarrow> jsnum" where
  "parseInt_string str =
     (case dropWhile is_ws str of
        [] \<Rightarrow> JNaN
      | c # cs \<Rightarrow>
          if c = CHR ''-'' then jsnum_neg (parse_magnitude cs)
          else if c = CHR ''+'' then parse_magnitude cs
          else parse_magnitude (c # cs))"

definition parseInt :: "jsval \<Rightarrow> jsnum" where
  "parseInt v = parseInt_string (js_toString v)"

text \<open>\<^verbatim>\<open>s.includes(t)\<close>: \<open>t\<close> occurs in \<open>s\<close> as a contiguous substring.\<close>

fun str_includes :: "string \<Rightarrow> string \<Rightarrow> bool" where
  "str_includes [] t = (t = [])"
| "str_includes (c # s) t = (prefix t (c # s) \<or> str_includes s t)"

text \<open>
  \<^verbatim>\<open>s.split(sep)\<close>: the pieces between the non-overlapping occurrences of \<open>sep\<close>, found
  from the left; the empty separator splits into single code units.
\<close>

function split_from :: "string \<Rightarrow> string \<Rightarrow> string list" where
  "split_from sep [] = [[]]"
| "split_from sep (c # s) =
     (if sep \<noteq> [] \<and> prefix sep (c # s) then [] # split_from sep (drop (length sep) (c # s))
      else (case split_from sep s of [] \<Rightarrow> [[c]] | x # xs \<Rightarrow> (c # x) # xs))"
  by pat_completeness auto
termination
  by (relation "measure (\<lambda>(sep, s). length s)") auto

definition js_split :: "string \<Rightarrow> string \<Rightarrow> string list" where
  "js_split s sep = (if sep = [] then map (\<lambda>c. [c]) s else split_from sep s)"

text \<open>\<^verbatim>\<open>s.toLowerCase()\<close> on the Latin-1 range.\<close>

definition upper_chars :: string where
  "upper_chars = ''ABCDEFGHIJKLMNOPQRSTUVWXYZ'' @
     [CHR 0xC0, CHR 0xC1, CHR 0xC2, CHR 0xC3, CHR 0xC4, CHR 0xC5, CHR 0xC6, CHR 0xC7,
      CHR 0xC8, CHR 0xC9, CHR 0xCA, CHR 0xCB, CHR 0xCC, CHR 0xCD, CHR 0xCE, CHR 0xCF,
      CHR 0xD0, CHR 0xD1, CHR 0xD2, CHR 0xD3, CHR 0xD4, CHR 0xD5, CHR 0xD6,
      CHR 0xD8, CHR 0xD9, CHR 0xDA, CHR 0xDB, CHR 0xDC, CHR 0xDD, CHR 0xDE]"

definition lower_chars :: string where
  "lower_chars = ''abcdefghijklmnopqrstuvwxyz'' @
     [CHR 0xE0, CHR 0xE1, CHR 0xE2, CHR 0xE3, CHR 0xE4, CHR 0xE5, CHR 0xE6, CHR 0xE7,
      CHR 0xE8, CHR 0xE9, CHR 0xEA, CHR 0xEB, CHR 0xEC, CHR 0xED, CHR 0xEE, CHR 0xEF,
      CHR 0xF0, CHR 0xF1, CHR 0xF2, CHR 0xF3, CHR 0xF4, CHR 0xF5, CHR 0xF6,
      CHR 0xF8, CHR 0xF9, CHR 0xFA, CHR 0xFB, CHR 0xFC, CHR 0xFD, CHR 0xFE]"

definition lower_char :: "char \<Rightarrow> char" where
  "lower_char c = (case index_of c upper_chars of None \<Rightarrow> c | Some i \<Rightarrow> lower_chars ! i)"

definition toLowerCase :: "string \<Rightarrow> string" where
  "toLowerCase s = map lower_char s"

text \<open>Errors a call can end with: a thrown TypeError, or the service's "not initialized" Error.\<close>

datatype js_error = TypeError | NotInitialized

section \<open>ID normalisation (index manager)\<close>

text \<open>\<^verbatim>\<open>normalizeZipCode(zip: string | number | null | undefined): string\<close>.\<close>

definition normalizeZipCode :: "jsval \<Rightarrow> string" where
  "normalizeZipCode zipv =
     (if \<not> truthy zipv \<and> \<not> strict_eq zipv (JNum (JInt 0)) then ''''
      else padStart0 5 (strip_non_digits (trim (js_toString zipv))))"

text \<open>\<^verbatim>\<open>normalizeCountyCode(county: string | number | null | undefined): string\<close>.\<close>

definition normalizeCountyCode :: "jsval \<Rightarrow> string" where
  "normalizeCountyCode county =
     (if \<not> truthy county \<and> \<not> strict_eq county (JNum (JInt 0)) then ''''
      else let cleanCounty = strip_non_digits (trim (js_toString county))
           in if length cleanCounty = 5 then drop (length cleanCounty - 3) cleanCounty
              else padStart0 3 cleanCounty)"

section \<open>County identifier variations (matching rules module)\<close>

text \<open>\<^verbatim>\<open>[...new Set(xs)]\<close>: the first occurrence of each element, in order.\<close>

definition set_add :: "'a list \<Rightarrow> 'a \<Rightarrow> 'a list" where
  "set_add seen x = (if x \<in> set seen then seen else seen @ [x])"

definition dedupe :: "'a list \<Rightarrow> 'a list" where
  "dedupe xs = foldl set_add [] xs"

text \<open>
  \<^verbatim>\<open>normalizeCountyId(id: string | number, addStatePrefix?: string): string[]\<close>.
  An omitted prefix is \<open>None\<close>; the empty prefix is falsy as well.
\<close>

definition normalizeCountyId :: "jsval \<Rightarrow> string option \<Rightarrow> string list" where
  "normalizeCountyId ident addStatePrefix =
     (if \<not> truthy ident then []
      else
        let idStr = trim (js_toString ident);
            v1 = [idStr];
            v2 = (case addStatePrefix of
                    Some p \<Rightarrow> if length idStr = 3 \<and> p \<noteq> [] then v1 @ [p @ idStr] else v1
                  | None \<Rightarrow> v1);
            v3 = (if length idStr = 4 then v2 @ [''0'' @ idStr] else v2);
            v4 = (if length idStr = 5 then v3 @ [drop 1 idStr] else v3)
        in dedupe v4)"

section \<open>State-scoped index cache (index manager)\<close>

text \<open>
  The module-level \<^verbatim>\<open>stateIndexCache\<close> is a \<^verbatim>\<open>Map\<close> from state code to the three row
  lists and the load time. The functions below only test, read, set and delete keys, so
  the map is a partial function. The world of the module also records every \<^verbatim>\<open>fetch\<close>
  call (its URL, in call order) and how often \<^verbatim>\<open>performance.now()\<close> was read.
\<close>

record StateIndexEntry =
  counties :: "jsrow list"
  zips :: "jsrow list"
  tracts :: "jsrow list"
  loadTime :: real

record IndexManager =
  stateIndexCache :: "string \<rightharpoonup> StateIndexEntry"
  fetch_log :: "string list"
  clock_reads :: nat

text \<open>
  What one \<^verbatim>\<open>fetch(url)\<close> does: it rejects, or it resolves to a response with its
  \<^verbatim>\<open>ok\<close> flag, its status and its body (\<open>None\<close> when \<^verbatim>\<open>response.text()\<close> rejects).
  The network is a function of the requests made so far and the URL requested.
\<close>

datatype fetch_outcome = FetchRejected | FetchResponse bool nat "string option"

type_synonym network = "string list \<Rightarrow> string \<Rightarrow> fetch_outcome"

definition BASE_URL :: string where
  "BASE_URL = ''https://pub-349a836622034df3a45c179d98e8328a.r2.dev''"

definition index_url :: "string \<Rightarrow> string \<Rightarrow> string" where
  "index_url stateAbbrev level = BASE_URL @ ''/index/csv/'' @ stateAbbrev @ ''/'' @ level @ ''.csv''"

definition is_numeric_header :: "string \<Rightarrow> bool" where
  "is_numeric_header header =
     (str_includes header ''zipcode'' \<or> str_includes header ''table_id'' \<or>
      str_includes header ''fips'' \<or> header = ''GEOID'')"

text \<open>\<^verbatim>\<open>values[index]?.trim() || ''\<close>.\<close>

definition cell_text :: "string list \<Rightarrow> nat \<Rightarrow> string" where
  "cell_text values index = (if index < length values then trim (values ! index) else [])"

definition csv_cell :: "string \<Rightarrow> string \<Rightarrow> jsval" where
  "csv_cell header v =
     (if is_numeric_header header
      then (if v \<noteq> [] then JNum (parseInt (JStr v)) else JNull)
      else JStr v)"

definition csv_record :: "string list \<Rightarrow> string \<Rightarrow> jsrow" where
  "csv_record headers line =
     (let values = js_split line '',''
      in fold (\<lambda>(index, header) record. record(header \<mapsto> csv_cell header (cell_text values index)))
           (enumerate 0 headers) Map.empty)"

text \<open>The body of the \<^verbatim>\<open>try\<close> after the text is read; \<^verbatim>\<open>lines[0].split\<close> throws when no line is left.\<close>

definition parse_csv :: "string \<Rightarrow> js_error + jsrow list" where
  "parse_csv csvText =
     (case filter (\<lambda>line. trim line \<noteq> []) (js_split csvText [CHR 0x0A]) of
        [] \<Rightarrow> Inl TypeError
      | header_line # data_lines \<Rightarrow>
          Inr (map (csv_record (map trim (js_split header_line '',''))) data_lines))"

text \<open>The rows one fetch outcome turns into: every failure is caught and gives \<^verbatim>\<open>[]\<close>.\<close>

definition rows_of_outcome :: "fetch_outcome \<Rightarrow> jsrow list" where
  "rows_of_outcome outcome =
     (case outcome of
        FetchRejected \<Rightarrow> []
      | FetchResponse ok status body \<Rightarrow>
          if \<not> ok then []
          else (case body of
                  None \<Rightarrow> []
                | Some csvText \<Rightarrow> (case parse_csv csvText of Inl e \<Rightarrow> [] | Inr rows \<Rightarrow> rows)))"

definition loadStateCSV :: "network \<Rightarrow> string \<Rightarrow> string \<Rightarrow> IndexManager \<Rightarrow> jsrow list \<times> IndexManager" where
  "loadStateCSV net stateAbbrev level w =
     (let url = index_url stateAbbrev level
      in (rows_of_outcome (net (fetch_log w) url), w\<lparr>fetch_log := fetch_log w @ [url]\<rparr>))"

text \<open>
  \<^verbatim>\<open>loadStateIndexes(stateAbbrev, level?)\<close> is an \<^verbatim>\<open>async\<close> function; the optional
  \<^verbatim>\<open>level\<close> is never read. A call runs in two parts, and other code of the event loop
  (another call included) may run between them:

  \<^item> up to \<^verbatim>\<open>await Promise.all\<close>: the \<^verbatim>\<open>has\<close> test, which ends the call with \<^verbatim>\<open>true\<close> on a
    cached state; otherwise the start time is read and the three \<^verbatim>\<open>loadStateCSV\<close> calls
    issue their fetches in the order county, zip, tract, and the call is left pending;
  \<^item> after the three row lists have arrived: the entry is \<^verbatim>\<open>set\<close>, the clock is read twice
    and \<^verbatim>\<open>true\<close> is returned.

  No \<^verbatim>\<open>loadStateCSV\<close> can reject, so the \<^verbatim>\<open>catch\<close> that returns \<^verbatim>\<open>false\<close> has nothing to
  catch. \<open>now k\<close> is the \<open>k\<close>-th reading of \<^verbatim>\<open>performance.now()\<close>.
\<close>

record PendingLoad =
  pending_state :: string
  pending_startTime :: real
  pending_counties :: "jsrow list"
  pending_zips :: "jsrow list"
  pending_tracts :: "jsrow list"

datatype load_step = LoadDone bool | LoadPending PendingLoad

definition loadStateIndexes_start ::
  "network \<Rightarrow> (nat \<Rightarrow> real) \<Rightarrow> string \<Rightarrow> IndexManager \<Rightarrow> load_step \<times> IndexManager" where
  "loadStateIndexes_start net now stateAbbrev w =
     (if stateIndexCache w stateAbbrev \<noteq> None then (LoadDone True, w)
      else
        let startTime = now (clock_reads w);
            (countyRows, w1) = loadStateCSV net stateAbbrev ''county'' w;
            (zipRows, w2) = loadStateCSV net stateAbbrev ''zip'' w1;
            (tractRows, w3) = loadStateCSV net stateAbbrev ''tract'' w2
        in (LoadPending \<lparr>pending_state = stateAbbrev, pending_startTime = startTime,
                          pending_counties = countyRows, pending_zips = zipRows,
                          pending_tracts = tractRows\<rparr>,
            w3\<lparr>clock_reads := clock_reads w + 1\<rparr>))"

definition loadStateIndexes_finish :: "(nat \<Rightarrow> real) \<Rightarrow> load_step \<Rightarrow> IndexManager \<Rightarrow> bool \<times> IndexManager" where
  "loadStateIndexes_finish now step w =
     (case step of
        LoadDone result \<Rightarrow> (result, w)
      | LoadPending p \<Rightarrow>
          let entry = \<lparr>counties = pending_counties p, zips = pending_zips p, tracts = pending_tracts p,
                       loadTime = now (clock_reads w) - pending_startTime p\<rparr>
          in (True, w\<lparr>stateIndexCache := (stateIndexCache w)(pending_state p \<mapsto> entry),
                        clock_reads := clock_reads w + 2\<rparr>))"

text \<open>A call that is awaited before anything else runs: both parts, one after the other.\<close>

definition loadStateIndexes :: "network \<Rightarrow> (nat \<Rightarrow> real) \<Rightarrow> string \<Rightarrow> IndexManager \<Rightarrow> bool \<times> IndexManager" where
  "loadStateIndexes net now stateAbbrev w =
     (case loadStateIndexes_start net now stateAbbrev w of
        (step, w') \<Rightarrow> loadStateIndexes_finish now step w')"

text \<open>\<^verbatim>\<open>clearStateCache(stateAbbrev?)\<close>: an omitted and an empty argument are both falsy.\<close>

definition clearStateCache :: "string option \<Rightarrow> IndexManager \<Rightarrow> IndexManager" where
  "clearStateCache stateAbbrev w =
     (case stateAbbrev of
        Some s \<Rightarrow>
          if s \<noteq> [] then w\<lparr>stateIndexCache := (stateIndexCache w)(s := None)\<rparr>
          else w\<lparr>stateIndexCache := Map.empty\<rparr>
      | None \<Rightarrow> w\<lparr>stateIndexCache := Map.empty\<rparr>)"

section \<open>Redfin table-id resolution (index manager)\<close>

datatype level = County | Zip

text \<open>\<^verbatim>\<open>v?.toString() === area\<close>.\<close>

definition toString_is :: "jsval \<Rightarrow> string \<Rightarrow> bool" where
  "toString_is v area = (v \<noteq> JUndefined \<and> v \<noteq> JNull \<and> js_toString v = area)"

text \<open>The four predicates handed to \<^verbatim>\<open>find\<close> on the ZIP and county rows, in source order.\<close>

definition zip_exact_match :: "string \<Rightarrow> jsrow \<Rightarrow> bool" where
  "zip_exact_match area row =
     (toString_is (getp row ''ZIPCODE'') area \<or>
      strict_eq (getp row ''ZIPCODE'') (JNum (parseInt (JStr area))) \<or>
      toString_is (getp row ''zipcode'') area \<or>
      toString_is (getp row ''zip_code'') area)"

definition zip_normalized_match :: "string \<Rightarrow> jsrow \<Rightarrow> bool" where
  "zip_normalized_match area row =
     (normalizeZipCode (getp row ''ZIPCODE'') = normalizeZipCode (JStr area))"

definition county_geoid_match :: "string \<Rightarrow> jsrow \<Rightarrow> bool" where
  "county_geoid_match area row =
     (strict_eq (getp row ''GEOID'') (JStr area) \<or> strict_eq (getp row ''GEOID'') (JStr area))"

definition county_fips_match :: "string \<Rightarrow> jsrow \<Rightarrow> bool" where
  "county_fips_match area row =
     (strict_eq (getp row ''fred_county_fips'') (JStr area) \<or>
      strict_eq (getp row ''fred_county_fips'') (JStr area))"

text \<open>
  \<^verbatim>\<open>v?.toLowerCase().includes(area.toLowerCase())\<close>: \<^verbatim>\<open>undefined\<close> (falsy) on a nullish
  value, a TypeError on a value that is no string.
\<close>

definition name_includes :: "jsval \<Rightarrow> string \<Rightarrow> js_error + bool" where
  "name_includes v area =
     (case v of
        JUndefined \<Rightarrow> Inr False
      | JNull \<Rightarrow> Inr False
      | JStr s \<Rightarrow> Inr (str_includes (toLowerCase s) (toLowerCase area))
      | _ \<Rightarrow> Inl TypeError)"

text \<open>\<^verbatim>\<open>a || b\<close> where evaluating an operand may throw; \<open>b\<close> is only evaluated when \<open>a\<close> is falsy.\<close>

definition or_else :: "js_error + bool \<Rightarrow> js_error + bool \<Rightarrow> js_error + bool" where
  "or_else a b = (case a of Inl e \<Rightarrow> Inl e | Inr True \<Rightarrow> Inr True | Inr False \<Rightarrow> b)"

definition county_name_match :: "string \<Rightarrow> jsrow \<Rightarrow> js_error + bool" where
  "county_name_match area row =
     or_else (name_includes (getp row ''NAME'') area)
       (or_else (name_includes (getp row ''NAMELSAD'') area)
          (name_includes (getp row ''region'') area))"

definition county_normalized_match :: "string \<Rightarrow> jsrow \<Rightarrow> bool" where
  "county_normalized_match area row =
     (normalizeCountyCode (js_or (getp row ''COUNTYFP'') (getp row ''GEOID'')) =
      normalizeCountyCode (JStr area))"

text \<open>\<^verbatim>\<open>rows.find(p)\<close> for a predicate that may throw: the first throw ends the search.\<close>

fun find_throwing :: "('a \<Rightarrow> js_error + bool) \<Rightarrow> 'a list \<Rightarrow> js_error + 'a option" where
  "find_throwing p [] = Inr None"
| "find_throwing p (x # xs) =
     (case p x of Inl e \<Rightarrow> Inl e | Inr True \<Rightarrow> Inr (Some x) | Inr False \<Rightarrow> find_throwing p xs)"

text \<open>
  \<^verbatim>\<open>getRedfinId(stateAbbrev, area, level)\<close> reads the cache only. The result is the
  promise's outcome: a rejection, or \<^verbatim>\<open>null\<close> (\<open>None\<close>), or a number.
\<close>

definition getRedfinId ::
  "(string \<rightharpoonup> StateIndexEntry) \<Rightarrow> string \<Rightarrow> string \<Rightarrow> level \<Rightarrow> js_error + jsnum option" where
  "getRedfinId cache stateAbbrev area lvl =
     (case cache stateAbbrev of
        None \<Rightarrow> Inr None
      | Some stateData \<Rightarrow>
          (case lvl of
             Zip \<Rightarrow>
               (let zipRecord =
                      (case find (zip_exact_match area) (zips stateData) of
                         Some r \<Rightarrow> Some r
                       | None \<Rightarrow> find (zip_normalized_match area) (zips stateData))
                in case zipRecord of
                     None \<Rightarrow> Inr None
                   | Some r \<Rightarrow>
                       if truthy (getp r ''redfin_tableid_zip'')
                       then Inr (Some (parseInt (getp r ''redfin_tableid_zip'')))
                       else Inr None)
           | County \<Rightarrow>
               (case find (county_geoid_match area) (counties stateData) of
                  Some r \<Rightarrow> Inr (Some (parseInt (getp r ''table_id'')))
                | None \<Rightarrow>
                    (case find (county_fips_match area) (counties stateData) of
                       Some r \<Rightarrow> Inr (Some (parseInt (getp r ''table_id'')))
                     | None \<Rightarrow>
                         (case find_throwing (county_name_match area) (counties stateData) of
                            Inl e \<Rightarrow> Inl e
                          | Inr (Some r) \<Rightarrow> Inr (Some (parseInt (getp r ''table_id'')))
                          | Inr None \<Rightarrow>
                              (case find (county_normalized_match area) (counties stateData) of
                                 Some r \<Rightarrow> Inr (Some (parseInt (getp r ''table_id'')))
                               | None \<Rightarrow> Inr None))))))"

section \<open>Index-driven payload reduction (optimised loader)\<close>

text \<open>
  \<^verbatim>\<open>filterRedfinByRelevantIds(redfinData, relevantIds)\<close>. \<^verbatim>\<open>Array.prototype.includes\<close>
  compares with SameValueZero, under which NaN equals NaN: equality of \<open>jsnum\<close>.
\<close>

definition filterRedfinByRelevantIds :: "jsrow list \<Rightarrow> jsnum list \<Rightarrow> jsrow list" where
  "filterRedfinByRelevantIds redfinData relevantIds =
     (if length relevantIds = 0 then redfinData
      else filter (\<lambda>record. parseInt (getp record ''table_id'') \<in> set relevantIds) redfinData)"

section \<open>Unified data service: data model\<close>

text \<open>
  The typed interfaces of the service. A \<^verbatim>\<open>Record<string, T>\<close> read with
  \<^verbatim>\<open>Object.entries\<close> is the list of its entries in enumeration order; an optional field
  is an \<open>option\<close>. Typed \<^verbatim>\<open>number\<close> fields are only copied, never computed with, and are
  reals. The index's \<^verbatim>\<open>metadata\<close>, \<^verbatim>\<open>search_terms\<close>, \<^verbatim>\<open>property_types\<close> and
  \<^verbatim>\<open>geographic_hierarchy\<close> are not read by the functions below and are left out.

  \<^verbatim>\<open>ZipMasterRecord.zipcode\<close> is declared \<^verbatim>\<open>string\<close>, and the substitute dataset has strings
  there; but \<^verbatim>\<open>initialize()\<close> reads the flat records with
  \<^verbatim>\<open>Papa.parse(text, {header: true, dynamicTyping: true})\<close>, which delivers a field made of
  digits as a number. The field is therefore a JavaScript value, and so are the keys of
  the auxiliary \<^verbatim>\<open>Map\<close> and the members of \<^verbatim>\<open>childZips\<close>, which are copied from it. A
  \<^verbatim>\<open>Map\<close> compares keys with SameValueZero, under which the number 90210 and the string
  \<^verbatim>\<open>"90210"\<close> are different keys: equality of \<open>jsval\<close>.
\<close>

record PropertyType =
  name :: string
  table_id :: string

record StateInfo =
  state_code :: string
  property_types :: "(string \<times> PropertyType) list"
  primary_table_id :: real

record CountyInfo = StateInfo +
  county_name :: string
  cities :: "string list"
  zip_codes :: "string list"

record CityInfo = StateInfo +
  city_name :: string

record ZipInfo = StateInfo +
  zip_code :: string

record RedfInMasterIndex =
  states :: "(string \<times> StateInfo) list"
  counties_index :: "(string \<times> CountyInfo) list"
  cities_index :: "(string \<times> CityInfo) list"
  zip_codes_index :: "(string \<times> ZipInfo) list"

record ZipMasterRecord =
  zipcode :: jsval
  state_code_zip :: string
  state_name :: string
  data_source :: string
  has_census_data :: bool
  has_redfin_data :: bool
  has_geometry :: bool
  geojson_file :: string
  data_file :: string
  redfin_tableid_zip :: "real option"
  redfin_table_id_city :: "real option"
  redfin_table_id_county :: "real option"
  redfin_city :: "string option"
  census_city :: "string option"
  parent_metro_region :: "string option"
  parent_metro_region_metro_code :: "real option"
  redfin_county_name :: "string option"
  region_type_id :: "real option"
  INTPTLAT :: real
  INTPTLON :: real
  ALAND :: real
  AWATER :: real

record HasData =
  census :: bool
  redfin :: bool
  geometry :: bool

record UnifiedLocation =
  zipCode :: "string option"
  stateCode :: string
  stateName :: string
  propertyTypes :: "(string \<times> PropertyType) list"
  primaryTableId :: real
  hierarchicalPath :: string
  coordinates :: "real \<times> real"
  geoJsonFile :: "string option"
  dataFile :: "string option"
  hasData :: HasData
  landArea :: "real option"
  waterArea :: "real option"
  metroRegion :: "string option"
  dataSource :: "string option"
  parentCounty :: "string option"
  parentState :: "string option"
  childCities :: "string list option"
  childZips :: "jsval list option"

text \<open>
  The service object. \<^verbatim>\<open>unifiedLookup\<close> is a \<^verbatim>\<open>Map\<close> whose values are later listed in
  insertion order, so it is an association list with distinct keys: \<^verbatim>\<open>set\<close> on a present
  key replaces the value in place, on a new key appends.
\<close>

record UnifiedDataService =
  redfInIndex :: "RedfInMasterIndex option"
  zipMasterData :: "ZipMasterRecord list"
  unifiedLookup :: "(string, UnifiedLocation) alist"
  isLoaded :: bool

definition new_UnifiedDataService :: UnifiedDataService where
  "new_UnifiedDataService =
     \<lparr>redfInIndex = None, zipMasterData = [], unifiedLookup = DAList.empty, isLoaded = False\<rparr>"

section \<open>Unified data service: index builder\<close>

text \<open>\<^verbatim>\<open>getStateName(stateCode)\<close> with the index loaded: the first state entry with that code.\<close>

definition getStateName :: "RedfInMasterIndex \<Rightarrow> string \<Rightarrow> string" where
  "getStateName idx stateCode' =
     (case find (\<lambda>(stateName', stateInfo). state_code stateInfo = stateCode') (states idx) of
        Some (stateName', stateInfo) \<Rightarrow> stateName'
      | None \<Rightarrow> stateCode')"

text \<open>\<^verbatim>\<open>s.toLowerCase().split(",")[0]\<close>.\<close>

definition lower_first_segment :: "string \<Rightarrow> string" where
  "lower_first_segment s =
     (case js_split (toLowerCase s) '','' of [] \<Rightarrow> ''undefined'' | seg # rest \<Rightarrow> seg)"

text \<open>\<^verbatim>\<open>x?.toLowerCase().includes(seg)\<close> on an optional string, as a condition.\<close>

definition opt_lower_includes :: "string option \<Rightarrow> string \<Rightarrow> bool" where
  "opt_lower_includes x seg = (case x of None \<Rightarrow> False | Some s \<Rightarrow> str_includes (toLowerCase s) seg)"

text \<open>The aggregate every state, county and city node takes from its flat records.\<close>

definition rep_coordinates :: "ZipMasterRecord list \<Rightarrow> real \<times> real" where
  "rep_coordinates zs = (case zs of [] \<Rightarrow> (0, 0) | repZip # rest \<Rightarrow> (INTPTLAT repZip, INTPTLON repZip))"

definition some_hasData :: "ZipMasterRecord list \<Rightarrow> HasData" where
  "some_hasData zs =
     \<lparr>census = list_ex has_census_data zs,
      redfin = list_ex has_redfin_data zs,
      geometry = list_ex has_geometry zs\<rparr>"

definition zipLookup_of :: "ZipMasterRecord list \<Rightarrow> (jsval, ZipMasterRecord) alist" where
  "zipLookup_of zmd = fold (\<lambda>record m. DAList.update (zipcode record) record m) zmd DAList.empty"

definition stateZips_of :: "ZipMasterRecord list \<Rightarrow> StateInfo \<Rightarrow> ZipMasterRecord list" where
  "stateZips_of zmd stateInfo = filter (\<lambda>z. state_code_zip z = state_code stateInfo) zmd"

definition unifiedState :: "ZipMasterRecord list \<Rightarrow> string \<Rightarrow> StateInfo \<Rightarrow> UnifiedLocation" where
  "unifiedState zmd stateName' stateInfo =
     (let stateZips = stateZips_of zmd stateInfo
      in \<lparr>zipCode = None,
          stateCode = state_code stateInfo,
          stateName = stateName',
          propertyTypes = property_types stateInfo,
          primaryTableId = primary_table_id stateInfo,
          hierarchicalPath = stateName',
          coordinates = rep_coordinates stateZips,
          geoJsonFile = None,
          dataFile = None,
          hasData = some_hasData stateZips,
          landArea = None, waterArea = None, metroRegion = None, dataSource = None,
          parentCounty = None,
          parentState = None,
          childCities = None,
          childZips = Some (map zipcode stateZips)\<rparr>)"

definition countyZips_of :: "ZipMasterRecord list \<Rightarrow> CountyInfo \<Rightarrow> ZipMasterRecord list" where
  "countyZips_of zmd countyInfo =
     filter (\<lambda>z. state_code_zip z = state_code countyInfo \<and>
                 (case redfin_county_name z of
                    None \<Rightarrow> False
                  | Some n \<Rightarrow> n \<noteq> [] \<and>
                      str_includes (toLowerCase n) (lower_first_segment (county_name countyInfo)))) zmd"

definition unifiedCounty :: "RedfInMasterIndex \<Rightarrow> ZipMasterRecord list \<Rightarrow> CountyInfo \<Rightarrow> UnifiedLocation" where
  "unifiedCounty idx zmd countyInfo =
     (let countyZips = countyZips_of zmd countyInfo;
          stateName' = getStateName idx (state_code countyInfo)
      in \<lparr>zipCode = None,
          stateCode = state_code countyInfo,
          stateName = stateName',
          propertyTypes = property_types countyInfo,
          primaryTableId = primary_table_id countyInfo,
          hierarchicalPath = stateName' @ '' > '' @ county_name countyInfo,
          coordinates = rep_coordinates countyZips,
          geoJsonFile = None,
          dataFile = None,
          hasData = some_hasData countyZips,
          landArea = None, waterArea = None, metroRegion = None, dataSource = None,
          parentCounty = None,
          parentState = Some stateName',
          childCities = Some (cities countyInfo),
          childZips = Some (map zipcode countyZips)\<rparr>)"

definition cityZips_of :: "ZipMasterRecord list \<Rightarrow> CityInfo \<Rightarrow> ZipMasterRecord list" where
  "cityZips_of zmd cityInfo =
     filter (\<lambda>z. state_code_zip z = state_code cityInfo \<and>
                 (opt_lower_includes (redfin_city z) (lower_first_segment (city_name cityInfo)) \<or>
                  opt_lower_includes (census_city z) (lower_first_segment (city_name cityInfo)))) zmd"

definition unifiedCity :: "RedfInMasterIndex \<Rightarrow> ZipMasterRecord list \<Rightarrow> CityInfo \<Rightarrow> UnifiedLocation" where
  "unifiedCity idx zmd cityInfo =
     (let cityZips = cityZips_of zmd cityInfo;
          stateName' = getStateName idx (state_code cityInfo)
      in \<lparr>zipCode = None,
          stateCode = state_code cityInfo,
          stateName = stateName',
          propertyTypes = property_types cityInfo,
          primaryTableId = primary_table_id cityInfo,
          hierarchicalPath = stateName' @ '' > '' @ city_name cityInfo,
          coordinates = rep_coordinates cityZips,
          geoJsonFile = None,
          dataFile = None,
          hasData = some_hasData cityZips,
          landArea = None, waterArea = None, metroRegion = None, dataSource = None,
          parentCounty = None,
          parentState = Some stateName',
          childCities = None,
          childZips = Some (map zipcode cityZips)\<rparr>)"

definition unifiedZip ::
  "RedfInMasterIndex \<Rightarrow> (jsval, ZipMasterRecord) alist \<Rightarrow> string \<Rightarrow> ZipInfo \<Rightarrow> UnifiedLocation" where
  "unifiedZip idx zipLookup zipCode' zipInfo =
     (let zipMasterRecord = DAList.lookup zipLookup (JStr zipCode');
          stateName' = getStateName idx (state_code zipInfo)
      in \<lparr>zipCode = Some zipCode',
          stateCode = state_code zipInfo,
          stateName = stateName',
          propertyTypes = property_types zipInfo,
          primaryTableId = primary_table_id zipInfo,
          hierarchicalPath = stateName' @ '' > '' @ zipCode',
          coordinates = (case zipMasterRecord of None \<Rightarrow> (0, 0) | Some z \<Rightarrow> (INTPTLAT z, INTPTLON z)),
          geoJsonFile = map_option geojson_file zipMasterRecord,
          dataFile = map_option data_file zipMasterRecord,
          hasData =
            \<lparr>census = (case zipMasterRecord of None \<Rightarrow> False | Some z \<Rightarrow> has_census_data z),
             redfin = (case zipMasterRecord of None \<Rightarrow> False | Some z \<Rightarrow> has_redfin_data z),
             geometry = (case zipMasterRecord of None \<Rightarrow> False | Some z \<Rightarrow> has_geometry z)\<rparr>,
          landArea = map_option ALAND zipMasterRecord,
          waterArea = map_option AWATER zipMasterRecord,
          metroRegion = Option.bind zipMasterRecord parent_metro_region,
          dataSource = map_option data_source zipMasterRecord,
          parentCounty = Option.bind zipMasterRecord redfin_county_name,
          parentState = Some stateName',
          childCities = None,
          childZips = None\<rparr>)"

text \<open>
  \<^verbatim>\<open>buildUnifiedLookup()\<close>: four \<^verbatim>\<open>forEach\<close> loops over the index's entries, each one
  \<^verbatim>\<open>unifiedLookup.set(key, location)\<close> per entry, on the map the service already holds.
\<close>

definition buildUnifiedLookup :: "UnifiedDataService \<Rightarrow> UnifiedDataService" where
  "buildUnifiedLookup svc =
     (case redfInIndex svc of
        None \<Rightarrow> svc
      | Some idx \<Rightarrow>
          let zmd = zipMasterData svc;
              zipLookup = zipLookup_of zmd;
              m1 = fold (\<lambda>(stateName', stateInfo) m.
                          DAList.update (''state:'' @ state_code stateInfo) (unifiedState zmd stateName' stateInfo) m)
                     (states idx) (unifiedLookup svc);
              m2 = fold (\<lambda>(countyKey, countyInfo) m.
                          DAList.update (''county:'' @ countyKey) (unifiedCounty idx zmd countyInfo) m)
                     (counties_index idx) m1;
              m3 = fold (\<lambda>(cityKey, cityInfo) m.
                          DAList.update (''city:'' @ cityKey) (unifiedCity idx zmd cityInfo) m)
                     (cities_index idx) m2;
              m4 = fold (\<lambda>(zipCode', zipInfo) m.
                          DAList.update (''zip:'' @ zipCode') (unifiedZip idx zipLookup zipCode' zipInfo) m)
                     (zip_codes_index idx) m3
          in svc\<lparr>unifiedLookup := m4\<rparr>)"

section \<open>Unified data service: substitute dataset\<close>

text \<open>The index and the flat records that \<^verbatim>\<open>initializeMockData()\<close> installs.\<close>

definition sfr :: "string \<Rightarrow> string \<times> PropertyType" where
  "sfr tid = (''SFR'', \<lparr>name = ''Single Family Residential'', table_id = tid\<rparr>)"

definition con :: "string \<Rightarrow> string \<times> PropertyType" where
  "con tid = (''CON'', \<lparr>name = ''Condominiums'', table_id = tid\<rparr>)"

definition mock_states :: "(string \<times> StateInfo) list" where
  "mock_states =
     [(''California'',
        \<lparr>state_code = ''CA'', property_types = [sfr ''1001'', con ''1002''], primary_table_id = 1001\<rparr>),
      (''Nevada'',
        \<lparr>state_code = ''NV'', property_types = [sfr ''2001'', con ''2002''], primary_table_id = 2001\<rparr>),
      (''Massachusetts'',
        \<lparr>state_code = ''MA'', property_types = [sfr ''3001'', con ''3002''], primary_table_id = 3001\<rparr>)]"

definition mock_counties :: "(string \<times> CountyInfo) list" where
  "mock_counties =
     [(''Los Angeles County, CA'',
        \<lparr>state_code = ''CA'', property_types = [sfr ''1101''], primary_table_id = 1101,
         county_name = ''Los Angeles County'', cities = [''Los Angeles'', ''Beverly Hills''],
         zip_codes = [''90210'', ''90001'']\<rparr>),
      (''Clark County, NV'',
        \<lparr>state_code = ''NV'', property_types = [sfr ''2101''], primary_table_id = 2101,
         county_name = ''Clark County'', cities = [''Las Vegas'', ''Henderson''],
         zip_codes = [''89101'', ''89102'']\<rparr>),
      (''Suffolk County, MA'',
        \<lparr>state_code = ''MA'', property_types = [sfr ''3101''], primary_table_id = 3101,
         county_name = ''Suffolk County'', cities = [''Boston''],
         zip_codes = [''02101'', ''02102'']\<rparr>)]"

definition mock_cities :: "(string \<times> CityInfo) list" where
  "mock_cities =
     [(''Los Angeles, CA'',
        \<lparr>state_code = ''CA'', property_types = [sfr ''1201''], primary_table_id = 1201,
         city_name = ''Los Angeles''\<rparr>),
      (''Las Vegas, NV'',
        \<lparr>state_code = ''NV'', property_types = [sfr ''2201''], primary_table_id = 2201,
         city_name = ''Las Vegas''\<rparr>),
      (''Boston, MA'',
        \<lparr>state_code = ''MA'', property_types = [sfr ''3201''], primary_table_id = 3201,
         city_name = ''Boston''\<rparr>)]"

text \<open>
  \<^verbatim>\<open>Object.entries\<close> lists integer-like keys first, in ascending order, then the other
  keys in insertion order: \<^verbatim>\<open>"89101"\<close>, \<^verbatim>\<open>"90210"\<close>, then \<^verbatim>\<open>"02101"\<close>.
\<close>

definition mock_zip_codes :: "(string \<times> ZipInfo) list" where
  "mock_zip_codes =
     [(''89101'',
        \<lparr>state_code = ''NV'', property_types = [sfr ''89101001''], primary_table_id = 89101001,
         zip_code = ''89101''\<rparr>),
      (''90210'',
        \<lparr>state_code = ''CA'', property_types = [sfr ''90210001''], primary_table_id = 90210001,
         zip_code = ''90210''\<rparr>),
      (''02101'',
        \<lparr>state_code = ''MA'', property_types = [sfr ''02101001''], primary_table_id = 2101001,
         zip_code = ''02101''\<rparr>)]"

definition mock_index :: RedfInMasterIndex where
  "mock_index =
     \<lparr>states = mock_states, counties_index = mock_counties, cities_index = mock_cities,
      zip_codes_index = mock_zip_codes\<rparr>"

definition mock_zip_record ::
  "string \<Rightarrow> string \<Rightarrow> string \<Rightarrow> string \<Rightarrow> string \<Rightarrow> real \<Rightarrow> real \<Rightarrow> real \<Rightarrow> real \<Rightarrow> ZipMasterRecord" where
  "mock_zip_record z sc sn city county lat lon aland awater =
     \<lparr>zipcode = JStr z, state_code_zip = sc, state_name = sn, data_source = ''mock'',
      has_census_data = True, has_redfin_data = True, has_geometry = True,
      geojson_file = ''/mock/'' @ z @ ''.geojson'', data_file = ''/mock/'' @ z @ ''_data.json'',
      redfin_tableid_zip = None, redfin_table_id_city = None, redfin_table_id_county = None,
      redfin_city = Some city, census_city = Some city,
      parent_metro_region = None, parent_metro_region_metro_code = None,
      redfin_county_name = Some county, region_type_id = None,
      INTPTLAT = lat, INTPTLON = lon, ALAND = aland, AWATER = awater\<rparr>"

definition mock_zipMasterData :: "ZipMasterRecord list" where
  "mock_zipMasterData =
     [mock_zip_record ''90210'' ''CA'' ''California'' ''Beverly Hills'' ''Los Angeles County''
        34.0901 (-118.4065) 14000000 0,
      mock_zip_record ''89101'' ''NV'' ''Nevada'' ''Las Vegas'' ''Clark County''
        36.1699 (-115.1398) 25000000 0,
      mock_zip_record ''02101'' ''MA'' ''Massachusetts'' ''Boston'' ''Suffolk County''
        42.3601 (-71.0589) 5000000 1000000]"

definition initializeMockData :: "UnifiedDataService \<Rightarrow> UnifiedDataService" where
  "initializeMockData svc =
     buildUnifiedLookup (svc\<lparr>redfInIndex := Some mock_index, zipMasterData := mock_zipMasterData\<rparr>)"

text \<open>
  The branch of \<^verbatim>\<open>initialize()\<close> taken on a new service when neither data file is found:
  the substitute dataset is installed and the service is marked loaded.
\<close>

definition initialize_without_files :: UnifiedDataService where
  "initialize_without_files = (initializeMockData new_UnifiedDataService)\<lparr>isLoaded := True\<rparr>"

section \<open>Unified data service: queries\<close>

text \<open>
  \<^verbatim>\<open>xs.sort(cmp)\<close> for a consistent comparator: a stable sort, here by insertion.
  \<^verbatim>\<open>localeCompare\<close> is the host's collation and stays a parameter.
\<close>

fun insert_by :: "('a \<Rightarrow> 'a \<Rightarrow> int) \<Rightarrow> 'a \<Rightarrow> 'a list \<Rightarrow> 'a list" where
  "insert_by cmp x [] = [x]"
| "insert_by cmp x (y # ys) = (if cmp x y \<le> 0 then x # y # ys else y # insert_by cmp x ys)"

definition js_sort :: "('a \<Rightarrow> 'a \<Rightarrow> int) \<Rightarrow> 'a list \<Rightarrow> 'a list" where
  "js_sort cmp xs = foldr (insert_by cmp) xs []"

text \<open>\<^verbatim>\<open>Array.from(this.unifiedLookup.values())\<close>.\<close>

definition lookup_values :: "UnifiedDataService \<Rightarrow> UnifiedLocation list" where
  "lookup_values svc = map snd (DAList.impl_of (unifiedLookup svc))"

definition getCitiesInState ::
  "(string \<Rightarrow> string \<Rightarrow> int) \<Rightarrow> UnifiedDataService \<Rightarrow> string \<Rightarrow> js_error + UnifiedLocation list" where
  "getCitiesInState localeCompare svc stateCode' =
     (if \<not> isLoaded svc then Inl NotInitialized
      else Inr (js_sort (\<lambda>a b. localeCompare (hierarchicalPath a) (hierarchicalPath b))
                  (filter (\<lambda>loc. stateCode loc = stateCode' \<and>
                                  length (js_split (hierarchicalPath loc) '' > '') = 2 \<and>
                                  \<not> str_includes (hierarchicalPath loc) ''County'')
                     (lookup_values svc))))"

text \<open>\<^verbatim>\<open>findByZip(zipCode)\<close>; \<open>None\<close> is \<^verbatim>\<open>null\<close>.\<close>

definition findByZip :: "UnifiedDataService \<Rightarrow> string \<Rightarrow> js_error + UnifiedLocation option" where
  "findByZip svc zipCode' =
     (if \<not> isLoaded svc then Inl NotInitialized
      else Inr (DAList.lookup (unifiedLookup svc) (''zip:'' @ zipCode')))"

text \<open>The \<^verbatim>\<open>type\<close> that \<^verbatim>\<open>getStats()\<close> computes for each location before counting it.\<close>

definition stats_type :: "UnifiedLocation \<Rightarrow> string" where
  "stats_type loc =
     (let parts = js_split (hierarchicalPath loc) '' > ''
      in if length parts = 1 then ''state''
         else if length parts = 2 \<and> (case zipCode loc of None \<Rightarrow> False | Some z \<Rightarrow> z \<noteq> []) then ''zip''
         else if length parts = 2 \<and> str_includes (parts ! 1) ''County'' then ''county''
         else ''city'')"

section \<open>The writes of one index build\<close>

text \<open>
  The \<^verbatim>\<open>set\<close> calls of one \<^verbatim>\<open>buildUnifiedLookup()\<close> run, in call order: they depend on the
  index and the flat records only, not on the map they are applied to.
\<close>

definition set_all :: "('k \<times> 'v) list \<Rightarrow> ('k, 'v) alist \<Rightarrow> ('k, 'v) alist" where
  "set_all ws m = fold (\<lambda>(k, v) m. DAList.update k v m) ws m"

definition state_writes :: "RedfInMasterIndex \<Rightarrow> ZipMasterRecord list \<Rightarrow> (string \<times> UnifiedLocation) list" where
  "state_writes idx zmd =
     map (\<lambda>(stateName', stateInfo). (''state:'' @ state_code stateInfo, unifiedState zmd stateName' stateInfo))
       (states idx)"

definition county_writes :: "RedfInMasterIndex \<Rightarrow> ZipMasterRecord list \<Rightarrow> (string \<times> UnifiedLocation) list" where
  "county_writes idx zmd =
     map (\<lambda>(countyKey, countyInfo). (''county:'' @ countyKey, unifiedCounty idx zmd countyInfo))
       (counties_index idx)"

definition city_writes :: "RedfInMasterIndex \<Rightarrow> ZipMasterRecord list \<Rightarrow> (string \<times> UnifiedLocation) list" where
  "city_writes idx zmd =
     map (\<lambda>(cityKey, cityInfo). (''city:'' @ cityKey, unifiedCity idx zmd cityInfo))
       (cities_index idx)"

definition zip_writes :: "RedfInMasterIndex \<Rightarrow> ZipMasterRecord list \<Rightarrow> (string \<times> UnifiedLocation) list" where
  "zip_writes idx zmd =
     map (\<lambda>(zipCode', zipInfo). (''zip:'' @ zipCode', unifiedZip idx (zipLookup_of zmd) zipCode' zipInfo))
       (zip_codes_index idx)"

definition lookup_writes :: "RedfInMasterIndex \<Rightarrow> ZipMasterRecord list \<Rightarrow> (string \<times> UnifiedLocation) list" where
  "lookup_writes idx zmd =
     (state_writes idx zmd @ county_writes idx zmd @ city_writes idx zmd) @ zip_writes idx zmd"

section \<open>Sample inputs\<close>

text \<open>
  County index rows as \<^verbatim>\<open>loadStateCSV\<close> produces them (\<^verbatim>\<open>GEOID\<close> and \<^verbatim>\<open>table_id\<close> parsed to
  numbers, the other columns strings), and one row whose identifiers are strings.
\<close>

definition county_row_area51 :: jsrow where
  "county_row_area51 =
     [''NAME'' \<mapsto> JStr ''Area 51 County'', ''GEOID'' \<mapsto> JNum (JInt 32099),
      ''table_id'' \<mapsto> JNum (JInt 100)]"

definition county_row_lander :: jsrow where
  "county_row_lander =
     [''NAME'' \<mapsto> JStr ''Lander County'', ''COUNTYFP'' \<mapsto> JStr ''051'',
      ''GEOID'' \<mapsto> JNum (JInt 32051), ''table_id'' \<mapsto> JNum (JInt 200)]"

definition county_row_carson :: jsrow where
  "county_row_carson =
     [''NAME'' \<mapsto> JStr ''Carson City'', ''GEOID'' \<mapsto> JStr ''32510'',
      ''fred_county_fips'' \<mapsto> JStr ''510'', ''table_id'' \<mapsto> JStr ''300'']"

definition sample_counties :: "jsrow list" where
  "sample_counties = [county_row_area51, county_row_lander, county_row_carson]"

definition sample_entry :: StateIndexEntry where
  "sample_entry = \<lparr>counties = sample_counties, zips = [], tracts = [], loadTime = 12\<rparr>"

definition sample_cache :: "string \<rightharpoonup> StateIndexEntry" where
  "sample_cache = [''NV'' \<mapsto> sample_entry]"

definition new_IndexManager :: IndexManager where
  "new_IndexManager = \<lparr>stateIndexCache = Map.empty, fetch_log = [], clock_reads = 0\<rparr>"

definition two_state_manager :: IndexManager where
  "two_state_manager =
     \<lparr>stateIndexCache = [''NV'' \<mapsto> sample_entry,
                          ''CA'' \<mapsto> \<lparr>counties = [], zips = [], tracts = [], loadTime = 7\<rparr>],
      fetch_log = [], clock_reads = 0\<rparr>"

text \<open>A network on which Nevada's county file is missing (404) and its tract fetch rejects.\<close>

definition sample_zip_csv :: string where
  "sample_zip_csv =
     ''zipcode,ZIPCODE,redfin_tableid_zip'' @ [CHR 0x0A] @ ''89101,89101,5512'' @ [CHR 0x0A]"

definition sample_network :: network where
  "sample_network requests url =
     (if url = index_url ''NV'' ''county'' then FetchResponse False 404 None
      else if url = index_url ''NV'' ''zip'' then FetchResponse True 200 (Some sample_zip_csv)
      else FetchRejected)"

definition sample_clock :: "nat \<Rightarrow> real" where
  "sample_clock k = 5 * real k"

text \<open>A pending load of Texas whose three files all came back empty.\<close>

definition texas_pending :: PendingLoad where
  "texas_pending =
     \<lparr>pending_state = ''TX'', pending_startTime = 0, pending_counties = [], pending_zips = [],
      pending_tracts = []\<rparr>"

text \<open>
  Two overlapping calls for Nevada on a new module: the second call starts while the
  first is pending, then the first finishes, then the second. The network answers the
  first three requests as above and rejects every later one.
\<close>

definition once_network :: network where
  "once_network requests url = (if length requests < 3 then sample_network requests url else FetchRejected)"

definition first_started :: "load_step \<times> IndexManager" where
  "first_started = loadStateIndexes_start once_network sample_clock ''NV'' new_IndexManager"

definition second_started :: "load_step \<times> IndexManager" where
  "second_started = loadStateIndexes_start once_network sample_clock ''NV'' (snd first_started)"

definition first_finished :: "bool \<times> IndexManager" where
  "first_finished = loadStateIndexes_finish sample_clock (fst first_started) (snd second_started)"

definition second_finished :: "bool \<times> IndexManager" where
  "second_finished = loadStateIndexes_finish sample_clock (fst second_started) (snd first_finished)"

text \<open>Raw Redfin records.\<close>

definition redfin_record_a :: jsrow where
  "redfin_record_a = [''table_id'' \<mapsto> JStr ''100'', ''region'' \<mapsto> JStr ''Area 51 County, NV'']"

definition redfin_record_b :: jsrow where
  "redfin_record_b = [''table_id'' \<mapsto> JNum (JInt 200), ''region'' \<mapsto> JStr ''Lander County, NV'']"

definition redfin_record_c :: jsrow where
  "redfin_record_c = [''table_id'' \<mapsto> JStr ''300 '', ''region'' \<mapsto> JStr ''Carson City, NV'']"

text \<open>The substitute dataset before the build, and the location built for ZIP 90210.\<close>

definition mock_service :: UnifiedDataService where
  "mock_service = new_UnifiedDataService\<lparr>redfInIndex := Some mock_index, zipMasterData := mock_zipMasterData\<rparr>"

definition zipInfo_90210 :: ZipInfo where
  "zipInfo_90210 =
     \<lparr>state_code = ''CA'', property_types = [sfr ''90210001''], primary_table_id = 90210001,
      zip_code = ''90210''\<rparr>"

definition location_90210 :: UnifiedLocation where
  "location_90210 = unifiedZip mock_index (zipLookup_of mock_zipMasterData) ''90210'' zipInfo_90210"

text \<open>
  The same three flat records as \<^verbatim>\<open>initialize()\<close> holds them after reading them from
  \<^verbatim>\<open>zip_master_index.csv\<close>: the \<^verbatim>\<open>zipcode\<close> column has arrived as numbers (and \<^verbatim>\<open>02101\<close>
  as 2101).
\<close>

definition loaded_record_90210 :: ZipMasterRecord where
  "loaded_record_90210 =
     (mock_zip_record ''90210'' ''CA'' ''California'' ''Beverly Hills'' ''Los Angeles County''
        34.0901 (-118.4065) 14000000 0)\<lparr>zipcode := JNum (JInt 90210)\<rparr>"

definition loaded_zipMasterData :: "ZipMasterRecord list" where
  "loaded_zipMasterData =
     [loaded_record_90210,
      (mock_zip_record ''89101'' ''NV'' ''Nevada'' ''Las Vegas'' ''Clark County''
         36.1699 (-115.1398) 25000000 0)\<lparr>zipcode := JNum (JInt 89101)\<rparr>,
      (mock_zip_record ''02101'' ''MA'' ''Massachusetts'' ''Boston'' ''Suffolk County''
         42.3601 (-71.0589) 5000000 1000000)\<lparr>zipcode := JNum (JInt 2101)\<rparr>]"

definition loaded_service :: UnifiedDataService where
  "loaded_service =
     new_UnifiedDataService\<lparr>redfInIndex := Some mock_index, zipMasterData := loaded_zipMasterData\<rparr>"




section \<open>Evaluation rules for concrete inputs\<close>

lemma padStart0_unfold:
  "padStart0 n s = (if length s < n then padStart0 n (CHR ''0'' # s) else s)"
proof (cases "length s < n")
  case True
  then have "n - length s = Suc (n - Suc (length s))" by simp
  then show ?thesis using True by (simp add: padStart0_def replicate_app_Cons_same)
next
  case False
  then show ?thesis by (simp add: padStart0_def)
qed

lemmas string_eval =
  trim_def is_ws_def strip_non_digits_def is_digit_def digit_chars_def padStart0_unfold
  toLowerCase_def lower_char_def upper_chars_def lower_chars_def js_split_def

lemmas number_eval =
  parseInt_def parseInt_string_def parse_magnitude_def jsnum_neg_def digits_value_def
  digit_value_def int_to_string_def nat_digits.simps digit_chars_def is_ws_def

section \<open>ZIP normalisation\<close>

lemma is_digit_not_ws: "is_digit c \<Longrightarrow> \<not> is_ws c"
  by (auto simp: is_digit_def is_ws_def digit_chars_def)

lemma dropWhile_none: "\<forall>x\<in>set xs. \<not> P x \<Longrightarrow> dropWhile P xs = xs"
  by (cases xs) auto

lemma trim_no_ws: "\<forall>c\<in>set s. \<not> is_ws c \<Longrightarrow> trim s = s"
  by (simp add: trim_def dropWhile_none)

lemma trim_digits: "list_all is_digit s \<Longrightarrow> trim s = s"
  by (rule trim_no_ws) (simp add: list_all_iff is_digit_not_ws)

lemma strip_digits: "list_all is_digit s \<Longrightarrow> strip_non_digits s = s"
  by (simp add: strip_non_digits_def list_all_iff)

lemma list_all_strip: "list_all is_digit (strip_non_digits s)"
  by (simp add: strip_non_digits_def list_all_iff)

lemma is_digit_zero: "is_digit CHR ''0''"
  by (simp add: is_digit_def digit_chars_def)

lemma list_all_pad: "list_all is_digit s \<Longrightarrow> list_all is_digit (padStart0 n s)"
  by (simp add: padStart0_def list_all_iff ball_Un is_digit_zero)

lemma length_pad: "length (padStart0 n s) = max n (length s)"
  by (simp add: padStart0_def)

lemma pad_id: "n \<le> length s \<Longrightarrow> padStart0 n s = s"
  by (simp add: padStart0_def)

lemma normalizeZipCode_digits: "list_all is_digit (normalizeZipCode v)"
  by (simp add: normalizeZipCode_def list_all_pad list_all_strip)

lemma normalizeZipCode_length: "normalizeZipCode v = [] \<or> 5 \<le> length (normalizeZipCode v)"
  by (simp add: normalizeZipCode_def length_pad)

lemma normalizeZipCode_canonical:
  "list_all is_digit s \<Longrightarrow> 5 \<le> length s \<Longrightarrow> normalizeZipCode (JStr s) = s"
  by (auto simp: normalizeZipCode_def trim_digits strip_digits pad_id)

lemma normalizeZipCode_again: "normalizeZipCode (JStr (normalizeZipCode v)) = normalizeZipCode v"
proof (cases "normalizeZipCode v = []")
  case True
  then show ?thesis by (simp add: normalizeZipCode_def)
next
  case False
  with normalizeZipCode_length [of v] have "5 \<le> length (normalizeZipCode v)" by simp
  then show ?thesis by (rule normalizeZipCode_canonical [OF normalizeZipCode_digits])
qed

text \<open>
  C8, as the code has it. A string of exactly five digits is returned unchanged, and for
  every input (null and undefined included) normalising the output again returns the same
  output. The output consists of digits only and is either empty (a falsy input other
  than the number 0) or at least five digits long: \<^verbatim>\<open>padStart\<close> pads and never cuts, so
  the output has exactly five digits when the input holds at most five.
\<close>

theorem normalizeZipCode_idempotent:
  "(length s = 5 \<and> list_all is_digit s \<longrightarrow> normalizeZipCode (JStr s) = s) \<and>
   normalizeZipCode (JStr (normalizeZipCode v)) = normalizeZipCode v \<and>
   list_all is_digit (normalizeZipCode v) \<and>
   (normalizeZipCode v = [] \<or> 5 \<le> length (normalizeZipCode v)) \<and>
   ((truthy v \<or> v = JNum (JInt 0)) \<and> length (strip_non_digits (trim (js_toString v))) \<le> 5
      \<longrightarrow> length (normalizeZipCode v) = 5)"
proof -
  have a: "length s = 5 \<and> list_all is_digit s \<longrightarrow> normalizeZipCode (JStr s) = s"
    by (simp add: normalizeZipCode_canonical)
  have b: "(truthy v \<or> v = JNum (JInt 0)) \<and> length (strip_non_digits (trim (js_toString v))) \<le> 5
      \<longrightarrow> length (normalizeZipCode v) = 5"
    by (auto simp: normalizeZipCode_def length_pad)
  from a b normalizeZipCode_again normalizeZipCode_digits normalizeZipCode_length
  show ?thesis by blast
qed

theorem normalizeZipCode_idempotent_witness:
  "length ''90210'' = 5 \<and> list_all is_digit ''90210'' \<and> normalizeZipCode (JStr ''90210'') = ''90210'' \<and>
   truthy (JStr ''501'') \<and> length (strip_non_digits (trim (js_toString (JStr ''501'')))) \<le> 5 \<and>
   normalizeZipCode (JStr ''501'') = ''00501'' \<and> length (normalizeZipCode (JStr ''501'')) = 5 \<and>
   normalizeZipCode (JStr (normalizeZipCode (JStr ''501''))) = ''00501''"
proof -
  have d: "length ''90210'' = 5 \<and> list_all is_digit ''90210''"
    by (simp add: is_digit_def digit_chars_def)
  have e: "normalizeZipCode (JStr ''501'') = ''00501''"
    by (simp add: normalizeZipCode_def string_eval)
  have f: "truthy (JStr ''501'') \<and> length (strip_non_digits (trim (js_toString (JStr ''501'')))) \<le> 5"
    by (simp add: string_eval)
  from normalizeZipCode_idempotent [of "''90210''" "JStr ''501''"] d e f
  show ?thesis by simp
qed

text \<open>
  C8 as stated fails: a ZIP+4 code and the empty string are non-null inputs, and
  normalising them (once or twice) gives nine digits and the empty string, not a 5-digit
  string.
\<close>

theorem normalizeZipCode_zip_plus_four_counterexample:
  "JStr ''90210-1234'' \<noteq> JNull \<and>
   normalizeZipCode (JStr (normalizeZipCode (JStr ''90210-1234''))) = ''902101234'' \<and>
   length ''902101234'' \<noteq> 5 \<and>
   JStr [] \<noteq> JNull \<and>
   normalizeZipCode (JStr (normalizeZipCode (JStr []))) = []"
  by (simp add: normalizeZipCode_def string_eval)

section \<open>County identifier variations\<close>

lemma set_foldl_set_add: "set (foldl set_add acc xs) = set acc \<union> set xs"
  by (induction xs arbitrary: acc) (auto simp: set_add_def)

lemma distinct_foldl_set_add: "distinct acc \<Longrightarrow> distinct (foldl set_add acc xs)"
  by (induction xs arbitrary: acc) (auto simp: set_add_def)

lemma set_dedupe: "set (dedupe xs) = set xs"
  by (simp add: dedupe_def set_foldl_set_add)

lemma distinct_dedupe: "distinct (dedupe xs)"
  by (simp add: dedupe_def distinct_foldl_set_add)

text \<open>
  C3, as the code has it. \<^verbatim>\<open>normalizeCountyId\<close> returns no duplicates; a falsy identifier
  (empty string, 0, NaN) gives the empty list; otherwise the identifier's string form with
  the surrounding white space trimmed (no other character is removed) is in the output,
  together with: the state prefix followed by it when it has 3 characters and a non-empty
  prefix is supplied; \<^verbatim>\<open>"0"\<close> followed by it when it has 4 characters; and its last 4
  characters when it has 5.
\<close>

theorem normalizeCountyId_variations:
  "distinct (normalizeCountyId ident p) \<and>
   (\<not> truthy ident \<longrightarrow> normalizeCountyId ident p = []) \<and>
   (truthy ident \<longrightarrow>
      trim (js_toString ident) \<in> set (normalizeCountyId ident p) \<and>
      (length (trim (js_toString ident)) = 3 \<and> p = Some q \<and> q \<noteq> []
         \<longrightarrow> q @ trim (js_toString ident) \<in> set (normalizeCountyId ident p)) \<and>
      (length (trim (js_toString ident)) = 4
         \<longrightarrow> ''0'' @ trim (js_toString ident) \<in> set (normalizeCountyId ident p)) \<and>
      (length (trim (js_toString ident)) = 5
         \<longrightarrow> drop 1 (trim (js_toString ident)) \<in> set (normalizeCountyId ident p)))"
  by (auto simp: normalizeCountyId_def Let_def set_dedupe distinct_dedupe split: option.splits)

theorem normalizeCountyId_variations_witness:
  "truthy (JStr ''001'') \<and> length (trim (js_toString (JStr ''001''))) = 3 \<and>
   ''06001'' \<in> set (normalizeCountyId (JStr ''001'') (Some ''06'')) \<and>
   truthy (JNum (JInt 6001)) \<and> length (trim (js_toString (JNum (JInt 6001)))) = 4 \<and>
   ''06001'' \<in> set (normalizeCountyId (JNum (JInt 6001)) None) \<and>
   truthy (JStr ''06001'') \<and> length (trim (js_toString (JStr ''06001''))) = 5 \<and>
   ''6001'' \<in> set (normalizeCountyId (JStr ''06001'') None) \<and>
   \<not> truthy (JStr '''') \<and> normalizeCountyId (JStr '''') (Some ''06'') = []"
proof -
  have t1: "trim ''001'' = ''001''" by (simp add: string_eval)
  have t2: "trim (int_to_string 6001) = ''6001''" by (simp add: string_eval number_eval)
  have t3: "trim ''06001'' = ''06001''" by (simp add: string_eval)
  from normalizeCountyId_variations [of "JStr ''001''" "Some ''06''" "''06''"]
       normalizeCountyId_variations [of "JNum (JInt 6001)" None]
       normalizeCountyId_variations [of "JStr ''06001''" None]
       normalizeCountyId_variations [of "JStr ''''" "Some ''06''"]
  show ?thesis by (simp add: t1 t2 t3)
qed

text \<open>
  C3 as stated fails. On its own example, the one-character identifier \<^verbatim>\<open>"1"\<close> with
  state prefix \<^verbatim>\<open>"06"\<close> is returned alone and \<^verbatim>\<open>"06001"\<close> is not produced; a 5-digit
  identifier gets its last four digits, not its last three; and a character that is no
  digit stays in the identifier.
\<close>

theorem normalizeCountyId_short_id_counterexample:
  "normalizeCountyId (JStr ''1'') (Some ''06'') = [''1''] \<and>
   ''06001'' \<notin> set (normalizeCountyId (JStr ''1'') (Some ''06'')) \<and>
   normalizeCountyId (JStr ''06001'') (Some ''06'') = [''06001'', ''6001''] \<and>
   ''001'' \<notin> set (normalizeCountyId (JStr ''06001'') (Some ''06'')) \<and>
   normalizeCountyId (JStr ''06-001'') (Some ''06'') = [''06-001'']"
  by (simp add: normalizeCountyId_def trim_def is_ws_def dedupe_def set_add_def)

section \<open>State-scoped index cache\<close>

lemma loadStateIndexes_start_cached:
  "stateIndexCache w s \<noteq> None \<Longrightarrow> loadStateIndexes_start net now s w = (LoadDone True, w)"
  by (simp add: loadStateIndexes_start_def)

lemma loadStateIndexes_start_fresh:
  "stateIndexCache w s = None \<Longrightarrow>
   loadStateIndexes_start net now s w =
     (LoadPending
        \<lparr>pending_state = s, pending_startTime = now (clock_reads w),
         pending_counties = rows_of_outcome (net (fetch_log w) (index_url s ''county'')),
         pending_zips = rows_of_outcome (net (fetch_log w @ [index_url s ''county'']) (index_url s ''zip'')),
         pending_tracts = rows_of_outcome
           (net (fetch_log w @ [index_url s ''county'', index_url s ''zip'']) (index_url s ''tract''))\<rparr>,
      w\<lparr>fetch_log := fetch_log w @ [index_url s ''county'', index_url s ''zip'', index_url s ''tract''],
        clock_reads := clock_reads w + 1\<rparr>)"
  by (simp add: loadStateIndexes_start_def loadStateCSV_def Let_def)

lemma loadStateIndexes_start_cache:
  "stateIndexCache (snd (loadStateIndexes_start net now s w)) = stateIndexCache w"
  by (cases "stateIndexCache w s = None")
     (simp_all add: loadStateIndexes_start_fresh loadStateIndexes_start_cached)

lemma loadStateIndexes_finish_pending:
  "loadStateIndexes_finish now (LoadPending p) w =
     (True, w\<lparr>stateIndexCache := (stateIndexCache w)(pending_state p \<mapsto>
                  \<lparr>counties = pending_counties p, zips = pending_zips p, tracts = pending_tracts p,
                   loadTime = now (clock_reads w) - pending_startTime p\<rparr>),
               clock_reads := clock_reads w + 2\<rparr>)"
  by (simp add: loadStateIndexes_finish_def Let_def)

lemma loadStateIndexes_finish_other:
  "stateIndexCache w s = Some e \<Longrightarrow> pending_state p \<noteq> s \<Longrightarrow>
   stateIndexCache (snd (loadStateIndexes_finish now (LoadPending p) w)) s = Some e"
  by (simp add: loadStateIndexes_finish_pending)

lemma loadStateIndexes_cached:
  "stateIndexCache w s \<noteq> None \<Longrightarrow> loadStateIndexes net now s w = (True, w)"
  by (simp add: loadStateIndexes_def loadStateIndexes_start_cached loadStateIndexes_finish_def)

lemma loadStateIndexes_fresh:
  "stateIndexCache w s = None \<Longrightarrow>
   loadStateIndexes net now s w =
     (True, w\<lparr>fetch_log := fetch_log w @ [index_url s ''county'', index_url s ''zip'', index_url s ''tract''],
              stateIndexCache := (stateIndexCache w)(s \<mapsto>
                \<lparr>counties = rows_of_outcome (net (fetch_log w) (index_url s ''county'')),
                 zips = rows_of_outcome (net (fetch_log w @ [index_url s ''county'']) (index_url s ''zip'')),
                 tracts = rows_of_outcome
                   (net (fetch_log w @ [index_url s ''county'', index_url s ''zip'']) (index_url s ''tract'')),
                 loadTime = now (clock_reads w + 1) - now (clock_reads w)\<rparr>),
              clock_reads := clock_reads w + 3\<rparr>)"
  by (simp add: loadStateIndexes_def loadStateIndexes_start_fresh loadStateIndexes_finish_pending)

lemma loadStateIndexes_true: "fst (loadStateIndexes net now s w) = True"
  by (cases "stateIndexCache w s = None") (simp_all add: loadStateIndexes_fresh loadStateIndexes_cached)

lemma loadStateIndexes_has: "stateIndexCache (snd (loadStateIndexes net now s w)) s \<noteq> None"
  by (cases "stateIndexCache w s = None") (simp_all add: loadStateIndexes_fresh loadStateIndexes_cached)

lemma loadStateIndexes_keeps:
  "stateIndexCache w s = Some e \<Longrightarrow> stateIndexCache (snd (loadStateIndexes net now s' w)) s = Some e"
  by (cases "stateIndexCache w s' = None") (auto simp: loadStateIndexes_fresh loadStateIndexes_cached)

lemma index_urls_distinct:
  "distinct [index_url s ''county'', index_url s ''zip'', index_url s ''tract'']"
  by (simp add: index_url_def)

lemma sample_network_county:
  "rows_of_outcome (sample_network requests (index_url ''NV'' ''county'')) = []"
  by (simp add: sample_network_def rows_of_outcome_def)

lemma sample_network_tract:
  "rows_of_outcome (sample_network requests (index_url ''NV'' ''tract'')) = []"
  by (simp add: sample_network_def rows_of_outcome_def index_url_def)

lemma sample_zip_csv_rows:
  "parse_csv sample_zip_csv =
     Inr [csv_record [''zipcode'', ''ZIPCODE'', ''redfin_tableid_zip''] ''89101,89101,5512'']"
  by (simp add: parse_csv_def sample_zip_csv_def string_eval)

lemma sample_network_zip:
  "rows_of_outcome (sample_network requests (index_url ''NV'' ''zip'')) =
     [csv_record [''zipcode'', ''ZIPCODE'', ''redfin_tableid_zip''] ''89101,89101,5512'']"
  by (simp add: sample_network_def rows_of_outcome_def index_url_def sample_zip_csv_rows)

lemma sample_zip_row_fields:
  "getp (csv_record [''zipcode'', ''ZIPCODE'', ''redfin_tableid_zip''] ''89101,89101,5512'') ''zipcode'' =
     JNum (JInt 89101) \<and>
   getp (csv_record [''zipcode'', ''ZIPCODE'', ''redfin_tableid_zip''] ''89101,89101,5512'') ''ZIPCODE'' =
     JStr ''89101'' \<and>
   getp (csv_record [''zipcode'', ''ZIPCODE'', ''redfin_tableid_zip''] ''89101,89101,5512'') ''redfin_tableid_zip'' =
     JStr ''5512''"
  by (simp add: csv_record_def getp_def csv_cell_def cell_text_def is_numeric_header_def enumerate_eq_zip
        string_eval number_eval)

lemma first_started_value:
  "first_started =
     (LoadPending
        \<lparr>pending_state = ''NV'', pending_startTime = sample_clock 0, pending_counties = [],
         pending_zips = [csv_record [''zipcode'', ''ZIPCODE'', ''redfin_tableid_zip''] ''89101,89101,5512''],
         pending_tracts = []\<rparr>,
      \<lparr>stateIndexCache = Map.empty,
       fetch_log = [index_url ''NV'' ''county'', index_url ''NV'' ''zip'', index_url ''NV'' ''tract''],
       clock_reads = 1\<rparr>)"
  by (simp add: first_started_def new_IndexManager_def loadStateIndexes_start_fresh once_network_def
        sample_network_county sample_network_zip sample_network_tract)

lemma second_started_value:
  "second_started =
     (LoadPending
        \<lparr>pending_state = ''NV'', pending_startTime = sample_clock 1, pending_counties = [],
         pending_zips = [], pending_tracts = []\<rparr>,
      \<lparr>stateIndexCache = Map.empty,
       fetch_log = [index_url ''NV'' ''county'', index_url ''NV'' ''zip'', index_url ''NV'' ''tract'',
                    index_url ''NV'' ''county'', index_url ''NV'' ''zip'', index_url ''NV'' ''tract''],
       clock_reads = 2\<rparr>)"
  by (simp add: second_started_def first_started_value loadStateIndexes_start_fresh once_network_def
        rows_of_outcome_def)

text \<open>
  C2, as the code has it. A \<^verbatim>\<open>loadStateIndexes\<close> call made after an earlier call for the
  same state has completed, whatever the network and the clock do by then, returns
  \<^verbatim>\<open>true\<close> and leaves the whole module state as the first call left it: no fetch is added
  and the entry is the same. Every completed call returns \<^verbatim>\<open>true\<close> and leaves the state
  cached. When the state was not cached before the first call, the fetches made over the
  two calls are exactly the county, zip and tract URLs of that state, once each. A call
  that starts on a cached state ends at once as a cache hit. An entry once stored survives
  every later completed call, of any state, and the completion of a pending load of
  another state; it is replaced only by \<^verbatim>\<open>clearStateCache\<close> or by the completion of a load
  of the same state that started before the entry was stored.
\<close>

theorem loadStateIndexes_single_fetch:
  "loadStateIndexes net' now' s (snd (loadStateIndexes net now s w)) = (True, snd (loadStateIndexes net now s w)) \<and>
   fst (loadStateIndexes net now s w) = True \<and>
   stateIndexCache (snd (loadStateIndexes net now s w)) s \<noteq> None \<and>
   (stateIndexCache w s = None \<longrightarrow>
      fetch_log (snd (loadStateIndexes net' now' s (snd (loadStateIndexes net now s w)))) =
        fetch_log w @ [index_url s ''county'', index_url s ''zip'', index_url s ''tract''] \<and>
      distinct [index_url s ''county'', index_url s ''zip'', index_url s ''tract'']) \<and>
   (stateIndexCache w s = Some e \<longrightarrow>
      loadStateIndexes_start net now s w = (LoadDone True, w) \<and>
      stateIndexCache (snd (loadStateIndexes net now s' w)) s = Some e \<and>
      (pending_state p \<noteq> s \<longrightarrow>
         stateIndexCache (snd (loadStateIndexes_finish now (LoadPending p) w)) s = Some e))"
proof -
  have again: "loadStateIndexes net' now' s (snd (loadStateIndexes net now s w)) =
      (True, snd (loadStateIndexes net now s w))"
    by (rule loadStateIndexes_cached) (rule loadStateIndexes_has)
  have requests: "stateIndexCache w s = None \<longrightarrow>
      fetch_log (snd (loadStateIndexes net' now' s (snd (loadStateIndexes net now s w)))) =
        fetch_log w @ [index_url s ''county'', index_url s ''zip'', index_url s ''tract'']"
    by (simp add: again) (simp add: loadStateIndexes_fresh)
  have hit: "stateIndexCache w s = Some e \<longrightarrow> loadStateIndexes_start net now s w = (LoadDone True, w)"
    by (simp add: loadStateIndexes_start_cached)
  show ?thesis
    using again requests hit loadStateIndexes_true loadStateIndexes_has index_urls_distinct
      loadStateIndexes_keeps loadStateIndexes_finish_other
    by blast
qed

theorem loadStateIndexes_single_fetch_witness:
  "stateIndexCache new_IndexManager ''NV'' = None \<and>
   fst (loadStateIndexes sample_network sample_clock ''NV'' new_IndexManager) = True \<and>
   loadStateIndexes (\<lambda>requests url. FetchRejected) sample_clock ''NV''
       (snd (loadStateIndexes sample_network sample_clock ''NV'' new_IndexManager)) =
     (True, snd (loadStateIndexes sample_network sample_clock ''NV'' new_IndexManager)) \<and>
   fetch_log (snd (loadStateIndexes (\<lambda>requests url. FetchRejected) sample_clock ''NV''
       (snd (loadStateIndexes sample_network sample_clock ''NV'' new_IndexManager)))) =
     [index_url ''NV'' ''county'', index_url ''NV'' ''zip'', index_url ''NV'' ''tract''] \<and>
   stateIndexCache two_state_manager ''NV'' = Some sample_entry \<and>
   loadStateIndexes_start sample_network sample_clock ''NV'' two_state_manager =
     (LoadDone True, two_state_manager) \<and>
   stateIndexCache (snd (loadStateIndexes sample_network sample_clock ''TX'' two_state_manager)) ''NV'' =
     Some sample_entry \<and>
   pending_state texas_pending \<noteq> ''NV'' \<and>
   stateIndexCache (snd (loadStateIndexes_finish sample_clock
       (LoadPending texas_pending) two_state_manager)) ''NV'' =
     Some sample_entry"
proof -
  have fresh: "stateIndexCache new_IndexManager ''NV'' = None"
    by (simp add: new_IndexManager_def)
  have empty_log: "fetch_log new_IndexManager = []"
    by (simp add: new_IndexManager_def)
  have cached: "stateIndexCache two_state_manager ''NV'' = Some sample_entry"
    by (simp add: two_state_manager_def)
  have texas: "pending_state texas_pending \<noteq> ''NV''"
    by (simp add: texas_pending_def)
  note first = loadStateIndexes_single_fetch
         [of "\<lambda>requests url. FetchRejected" sample_clock "''NV''" sample_network sample_clock new_IndexManager]
  note other = loadStateIndexes_single_fetch
         [of sample_network sample_clock "''NV''" sample_network sample_clock two_state_manager
             sample_entry "''TX''" texas_pending]
  from first have ok: "fst (loadStateIndexes sample_network sample_clock ''NV'' new_IndexManager) = True"
    by blast
  from first have again:
    "loadStateIndexes (\<lambda>requests url. FetchRejected) sample_clock ''NV''
       (snd (loadStateIndexes sample_network sample_clock ''NV'' new_IndexManager)) =
     (True, snd (loadStateIndexes sample_network sample_clock ''NV'' new_IndexManager))"
    by blast
  from first fresh have
    "fetch_log (snd (loadStateIndexes (\<lambda>requests url. FetchRejected) sample_clock ''NV''
       (snd (loadStateIndexes sample_network sample_clock ''NV'' new_IndexManager)))) =
     fetch_log new_IndexManager @ [index_url ''NV'' ''county'', index_url ''NV'' ''zip'', index_url ''NV'' ''tract'']"
    by blast
  then have requests:
    "fetch_log (snd (loadStateIndexes (\<lambda>requests url. FetchRejected) sample_clock ''NV''
       (snd (loadStateIndexes sample_network sample_clock ''NV'' new_IndexManager)))) =
     [index_url ''NV'' ''county'', index_url ''NV'' ''zip'', index_url ''NV'' ''tract'']"
    by (simp only: empty_log append_Nil)
  from other cached have hit:
    "loadStateIndexes_start sample_network sample_clock ''NV'' two_state_manager =
       (LoadDone True, two_state_manager)"
    by blast
  from other cached have kept:
    "stateIndexCache (snd (loadStateIndexes sample_network sample_clock ''TX'' two_state_manager)) ''NV'' =
     Some sample_entry"
    by blast
  from other cached texas have kept_pending:
    "stateIndexCache (snd (loadStateIndexes_finish sample_clock
       (LoadPending texas_pending) two_state_manager)) ''NV'' =
     Some sample_entry"
    by blast
  from fresh ok again requests cached hit kept texas kept_pending show ?thesis by blast
qed

text \<open>
  C2 as stated fails when the second call is made while the first is still pending: the
  first call has not stored its entry yet, so the second call fetches the three files
  again (six fetches, each file twice), and when it completes it replaces the entry the
  first call stored, here by one without the ZIP rows.
\<close>

theorem loadStateIndexes_overlapping_counterexample:
  "stateIndexCache new_IndexManager ''NV'' = None \<and>
   fst first_finished = True \<and>
   fst second_finished = True \<and>
   fetch_log (snd second_finished) =
     [index_url ''NV'' ''county'', index_url ''NV'' ''zip'', index_url ''NV'' ''tract'',
      index_url ''NV'' ''county'', index_url ''NV'' ''zip'', index_url ''NV'' ''tract''] \<and>
   map_option zips (stateIndexCache (snd first_finished) ''NV'') =
     Some [csv_record [''zipcode'', ''ZIPCODE'', ''redfin_tableid_zip''] ''89101,89101,5512''] \<and>
   map_option zips (stateIndexCache (snd second_finished) ''NV'') = Some []"
  by (simp add: first_finished_def second_finished_def first_started_value second_started_value
        loadStateIndexes_finish_pending new_IndexManager_def)

text \<open>
  C5. A fetch that rejects, a response that is not OK, a body that cannot be read and a
  body with no line to parse each give the empty row list for that file; a parsed body
  gives its rows. On a state not yet cached, \<^verbatim>\<open>loadStateIndexes\<close> returns \<^verbatim>\<open>true\<close> and
  stores an entry whose three row lists are, file by file, the rows of that file's own
  fetch outcome: a failed file is empty there and does not touch the other two.
\<close>

theorem loadStateIndexes_partial_failure:
  "rows_of_outcome FetchRejected = [] \<and>
   rows_of_outcome (FetchResponse False status body) = [] \<and>
   rows_of_outcome (FetchResponse True status None) = [] \<and>
   (parse_csv csvText = Inl err \<longrightarrow> rows_of_outcome (FetchResponse True status (Some csvText)) = []) \<and>
   (parse_csv csvText = Inr rows \<longrightarrow> rows_of_outcome (FetchResponse True status (Some csvText)) = rows) \<and>
   (stateIndexCache w s = None \<longrightarrow>
      fst (loadStateIndexes net now s w) = True \<and>
      (\<exists>t. stateIndexCache (snd (loadStateIndexes net now s w)) s =
         Some \<lparr>counties = rows_of_outcome (net (fetch_log w) (index_url s ''county'')),
               zips = rows_of_outcome (net (fetch_log w @ [index_url s ''county'']) (index_url s ''zip'')),
               tracts = rows_of_outcome
                 (net (fetch_log w @ [index_url s ''county'', index_url s ''zip'']) (index_url s ''tract'')),
               loadTime = t\<rparr>))"
  by (simp add: rows_of_outcome_def loadStateIndexes_fresh)

theorem loadStateIndexes_partial_failure_witness:
  "stateIndexCache new_IndexManager ''NV'' = None \<and>
   sample_network [] (index_url ''NV'' ''county'') = FetchResponse False 404 None \<and>
   sample_network [index_url ''NV'' ''county'', index_url ''NV'' ''zip''] (index_url ''NV'' ''tract'') =
     FetchRejected \<and>
   parse_csv '' '' = Inl TypeError \<and>
   rows_of_outcome (FetchResponse True 200 (Some '' '')) = [] \<and>
   fst (loadStateIndexes sample_network sample_clock ''NV'' new_IndexManager) = True \<and>
   (\<exists>e. stateIndexCache (snd (loadStateIndexes sample_network sample_clock ''NV'' new_IndexManager)) ''NV'' =
           Some e \<and>
         counties e = [] \<and> tracts e = [] \<and>
         map (\<lambda>row. getp row ''zipcode'') (zips e) = [JNum (JInt 89101)] \<and>
         map (\<lambda>row. getp row ''redfin_tableid_zip'') (zips e) = [JStr ''5512''])"
proof -
  have fresh: "stateIndexCache new_IndexManager ''NV'' = None"
    by (simp add: new_IndexManager_def)
  have empty_log: "fetch_log new_IndexManager = []"
    by (simp add: new_IndexManager_def)
  have county: "sample_network [] (index_url ''NV'' ''county'') = FetchResponse False 404 None"
    by (simp add: sample_network_def)
  have tract: "sample_network [index_url ''NV'' ''county'', index_url ''NV'' ''zip'']
      (index_url ''NV'' ''tract'') = FetchRejected"
    by (simp add: sample_network_def index_url_def)
  have blank: "parse_csv '' '' = Inl TypeError"
    by (simp add: parse_csv_def string_eval)
  have unreadable: "rows_of_outcome (FetchResponse True 200 (Some '' '')) = []"
    using loadStateIndexes_partial_failure [of 200 None "'' ''" TypeError] blank by blast
  note load = loadStateIndexes_partial_failure
         [of 200 None "'' ''" TypeError "[]" new_IndexManager "''NV''" sample_network sample_clock]
  from load fresh
  have ok: "fst (loadStateIndexes sample_network sample_clock ''NV'' new_IndexManager) = True"
    by blast
  from load fresh obtain t where
    "stateIndexCache (snd (loadStateIndexes sample_network sample_clock ''NV'' new_IndexManager)) ''NV'' =
       Some \<lparr>counties = rows_of_outcome (sample_network (fetch_log new_IndexManager) (index_url ''NV'' ''county'')),
             zips = rows_of_outcome
               (sample_network (fetch_log new_IndexManager @ [index_url ''NV'' ''county'']) (index_url ''NV'' ''zip'')),
             tracts = rows_of_outcome
               (sample_network (fetch_log new_IndexManager @ [index_url ''NV'' ''county'', index_url ''NV'' ''zip''])
                  (index_url ''NV'' ''tract'')),
             loadTime = t\<rparr>"
    by blast
  then have entry:
    "stateIndexCache (snd (loadStateIndexes sample_network sample_clock ''NV'' new_IndexManager)) ''NV'' =
       Some \<lparr>counties = [],
             zips = [csv_record [''zipcode'', ''ZIPCODE'', ''redfin_tableid_zip''] ''89101,89101,5512''],
             tracts = [], loadTime = t\<rparr>"
    by (simp only: sample_network_county sample_network_tract sample_network_zip)
  have stored:
    "\<exists>e. stateIndexCache (snd (loadStateIndexes sample_network sample_clock ''NV'' new_IndexManager)) ''NV'' =
           Some e \<and>
         counties e = [] \<and> tracts e = [] \<and>
         map (\<lambda>row. getp row ''zipcode'') (zips e) = [JNum (JInt 89101)] \<and>
         map (\<lambda>row. getp row ''redfin_tableid_zip'') (zips e) = [JStr ''5512'']"
    unfolding entry by (simp add: sample_zip_row_fields)
  from fresh county tract blank unreadable ok stored show ?thesis by blast
qed

text \<open>
  C10, as the code has it. \<^verbatim>\<open>clearStateCache(s)\<close> with a non-empty state code removes the
  entry keyed \<open>s\<close> and leaves every other key's entry as it was; called with no argument,
  or with the empty string, it empties the whole cache.
\<close>

theorem clearStateCache_frame:
  "(s \<noteq> [] \<longrightarrow>
      stateIndexCache (clearStateCache (Some s) w) s = None \<and>
      (\<forall>k. k \<noteq> s \<longrightarrow> stateIndexCache (clearStateCache (Some s) w) k = stateIndexCache w k)) \<and>
   stateIndexCache (clearStateCache None w) = Map.empty \<and>
   stateIndexCache (clearStateCache (Some []) w) = Map.empty"
  by (simp add: clearStateCache_def)

theorem clearStateCache_frame_witness:
  "''CA'' \<noteq> [] \<and> ''NV'' \<noteq> ''CA'' \<and>
   stateIndexCache two_state_manager ''CA'' \<noteq> None \<and>
   stateIndexCache (clearStateCache (Some ''CA'') two_state_manager) ''CA'' = None \<and>
   stateIndexCache (clearStateCache (Some ''CA'') two_state_manager) ''NV'' = Some sample_entry \<and>
   stateIndexCache (clearStateCache None two_state_manager) ''NV'' = None"
proof -
  have nv: "stateIndexCache two_state_manager ''NV'' = Some sample_entry"
    by (simp add: two_state_manager_def)
  have ca: "stateIndexCache two_state_manager ''CA'' \<noteq> None"
    by (simp add: two_state_manager_def)
  from clearStateCache_frame [of "''CA''" two_state_manager] nv ca
  show ?thesis by simp
qed

text \<open>
  C10 as stated fails for the empty state code: \<^verbatim>\<open>clearStateCache("")\<close> takes the
  clear-all branch and removes the entries of other states.
\<close>

theorem clearStateCache_empty_code_counterexample:
  "''NV'' \<noteq> '''' \<and>
   stateIndexCache two_state_manager ''NV'' = Some sample_entry \<and>
   stateIndexCache (clearStateCache (Some '''') two_state_manager) ''NV'' = None"
  by (simp add: clearStateCache_def two_state_manager_def)

section \<open>Payload reduction\<close>

lemma redfin_record_ids:
  "parseInt (getp redfin_record_a ''table_id'') = JInt 100 \<and>
   parseInt (getp redfin_record_b ''table_id'') = JInt 200 \<and>
   parseInt (getp redfin_record_c ''table_id'') = JInt 300"
  by (simp add: redfin_record_a_def redfin_record_b_def redfin_record_c_def getp_def
        is_ws_def number_eval)

text \<open>
  C4. With no relevant id the input list is returned as it is. Otherwise the result is
  the input filtered, in input order, to the records whose \<^verbatim>\<open>table_id\<close> parses
  (\<^verbatim>\<open>parseInt\<close>) to one of the relevant ids; in both cases it is a subsequence of the input.
\<close>

theorem filterRedfinByRelevantIds_spec:
  "(relevantIds = [] \<longrightarrow> filterRedfinByRelevantIds rawRecords relevantIds = rawRecords) \<and>
   (relevantIds \<noteq> [] \<longrightarrow>
      filterRedfinByRelevantIds rawRecords relevantIds =
        filter (\<lambda>record. parseInt (getp record ''table_id'') \<in> set relevantIds) rawRecords \<and>
      (\<forall>record. record \<in> set (filterRedfinByRelevantIds rawRecords relevantIds) \<longleftrightarrow>
         record \<in> set rawRecords \<and> parseInt (getp record ''table_id'') \<in> set relevantIds)) \<and>
   subseq (filterRedfinByRelevantIds rawRecords relevantIds) rawRecords \<and>
   length (filterRedfinByRelevantIds rawRecords relevantIds) \<le> length rawRecords"
  by (simp add: filterRedfinByRelevantIds_def)

theorem filterRedfinByRelevantIds_spec_witness:
  "filterRedfinByRelevantIds [redfin_record_a, redfin_record_b, redfin_record_c] [] =
     [redfin_record_a, redfin_record_b, redfin_record_c] \<and>
   [JInt 300, JInt 100] \<noteq> [] \<and>
   filterRedfinByRelevantIds [redfin_record_a, redfin_record_b, redfin_record_c] [JInt 300, JInt 100] =
     [redfin_record_a, redfin_record_c]"
  using filterRedfinByRelevantIds_spec [of "[]" "[redfin_record_a, redfin_record_b, redfin_record_c]"]
        filterRedfinByRelevantIds_spec
          [of "[JInt 300, JInt 100]" "[redfin_record_a, redfin_record_b, redfin_record_c]"]
  by (simp add: redfin_record_ids)

section \<open>County table-id resolution\<close>

text \<open>
  Rows loaded from a per-state CSV file never satisfy the two exact predicates: the loader
  parses the \<^verbatim>\<open>GEOID\<close> and \<^verbatim>\<open>fred_county_fips\<close> columns to numbers (or \<^verbatim>\<open>null\<close>), and
  the area is a string, which \<^verbatim>\<open>===\<close> never equates with a number.
\<close>

lemma csv_fold_cells:
  assumes "\<And>h v. acc h = Some v \<Longrightarrow> \<exists>t. v = csv_cell h t"
    and "fold (\<lambda>(index, header) record. record(header \<mapsto> csv_cell header (cell_text values index))) es acc h = Some v"
  shows "\<exists>t. v = csv_cell h t"
  using assms
proof (induction es arbitrary: acc)
  case Nil
  then show ?case by simp
next
  case (Cons e es)
  obtain index header where e: "e = (index, header)" by (cases e)
  show ?case
  proof (rule Cons.IH [of "acc(header \<mapsto> csv_cell header (cell_text values index))"])
    fix h' v'
    assume "(acc(header \<mapsto> csv_cell header (cell_text values index))) h' = Some v'"
    then show "\<exists>t. v' = csv_cell h' t"
      using Cons.prems(1) by (auto split: if_splits)
  next
    from Cons.prems(2)
    show "fold (\<lambda>(index, header) record. record(header \<mapsto> csv_cell header (cell_text values index))) es
            (acc(header \<mapsto> csv_cell header (cell_text values index))) h = Some v"
      by (simp add: e del: fun_upd_apply)
  qed
qed

lemma csv_record_cell: "csv_record headers line h = Some v \<Longrightarrow> \<exists>t. v = csv_cell h t"
  unfolding csv_record_def Let_def by (rule csv_fold_cells [of Map.empty]) simp_all

lemma number_not_string: "\<not> strict_eq (JNum n) (JStr area)"
  by (cases n) simp_all

lemma csv_numeric_cell_not_string: "is_numeric_header h \<Longrightarrow> \<not> strict_eq (csv_cell h t) (JStr area)"
  by (simp add: csv_cell_def number_not_string)

lemma csv_record_numeric_field:
  "is_numeric_header h \<Longrightarrow> \<not> strict_eq (getp (csv_record headers line) h) (JStr area)"
proof (cases "csv_record headers line h")
  case None
  then show ?thesis by (simp add: getp_def)
next
  case (Some v)
  assume "is_numeric_header h"
  with csv_record_cell [OF Some] show ?thesis
    by (auto simp: getp_def Some csv_numeric_cell_not_string)
qed

lemma parse_csv_rows:
  "parse_csv csvText = Inr rows \<Longrightarrow> row \<in> set rows \<Longrightarrow> \<exists>headers line. row = csv_record headers line"
  by (auto simp: parse_csv_def split: list.splits) blast

lemma rows_of_outcome_csv:
  assumes "row \<in> set (rows_of_outcome outcome)"
  shows "\<exists>headers line. row = csv_record headers line"
proof (cases outcome)
  case FetchRejected
  with assms show ?thesis by (simp add: rows_of_outcome_def)
next
  case (FetchResponse ok status body)
  show ?thesis
  proof (cases "ok \<and> body \<noteq> None")
    case False
    with assms FetchResponse show ?thesis by (auto simp: rows_of_outcome_def split: if_splits)
  next
    case True
    then obtain csvText where body: "body = Some csvText" and ok: ok by auto
    show ?thesis
    proof (cases "parse_csv csvText")
      case (Inl e)
      with assms FetchResponse body ok show ?thesis by (simp add: rows_of_outcome_def)
    next
      case (Inr rows)
      with assms FetchResponse body ok have "row \<in> set rows" by (simp add: rows_of_outcome_def)
      with Inr show ?thesis by (rule parse_csv_rows)
    qed
  qed
qed

lemma loaded_rows_no_exact_match:
  assumes "row \<in> set (rows_of_outcome outcome)"
  shows "\<not> county_geoid_match area row \<and> \<not> county_fips_match area row"
proof -
  from rows_of_outcome_csv [OF assms] obtain headers line where row: "row = csv_record headers line"
    by blast
  have geoid: "is_numeric_header ''GEOID''"
    by (simp add: is_numeric_header_def)
  have fips: "is_numeric_header ''fred_county_fips''"
    by (simp add: is_numeric_header_def)
  show ?thesis
    unfolding row county_geoid_match_def county_fips_match_def
    using csv_record_numeric_field [OF geoid] csv_record_numeric_field [OF fips] by blast
qed

lemma sample_geoid_matches:
  "map (county_geoid_match ''32510'') sample_counties = [False, False, True] \<and>
   map (county_geoid_match ''510'') sample_counties = [False, False, False] \<and>
   map (county_geoid_match ''51'') sample_counties = [False, False, False] \<and>
   map (county_geoid_match ''051'') sample_counties = [False, False, False] \<and>
   map (county_geoid_match ''999'') sample_counties = [False, False, False]"
  by (simp add: sample_counties_def county_row_area51_def county_row_lander_def county_row_carson_def
        county_geoid_match_def getp_def)

lemma sample_fips_matches:
  "map (county_fips_match ''510'') sample_counties = [False, False, True] \<and>
   map (county_fips_match ''51'') sample_counties = [False, False, False] \<and>
   map (county_fips_match ''051'') sample_counties = [False, False, False] \<and>
   map (county_fips_match ''999'') sample_counties = [False, False, False]"
  by (simp add: sample_counties_def county_row_area51_def county_row_lander_def county_row_carson_def
        county_fips_match_def getp_def)

lemma sample_name_matches:
  "map (county_name_match ''51'') sample_counties = [Inr True, Inr False, Inr False] \<and>
   map (county_name_match ''051'') sample_counties = [Inr False, Inr False, Inr False] \<and>
   map (county_name_match ''999'') sample_counties = [Inr False, Inr False, Inr False]"
  by (simp add: sample_counties_def county_row_area51_def county_row_lander_def county_row_carson_def
        county_name_match_def name_includes_def or_else_def getp_def string_eval)

lemma sample_normalized_matches:
  "map (county_normalized_match ''51'') sample_counties = [False, True, False] \<and>
   map (county_normalized_match ''051'') sample_counties = [False, True, False] \<and>
   map (county_normalized_match ''999'') sample_counties = [False, False, False]"
  by (simp add: sample_counties_def county_row_area51_def county_row_lander_def county_row_carson_def
        county_normalized_match_def normalizeCountyCode_def js_or_def getp_def string_eval number_eval)

lemma sample_table_ids:
  "parseInt (getp county_row_area51 ''table_id'') = JInt 100 \<and>
   parseInt (getp county_row_lander ''table_id'') = JInt 200 \<and>
   parseInt (getp county_row_carson ''table_id'') = JInt 300"
  by (simp add: county_row_area51_def county_row_lander_def county_row_carson_def getp_def
        is_ws_def number_eval)

lemma find_by_map:
  "find p [a, b, c] =
     (if map p [a, b, c] ! 0 then Some a else if map p [a, b, c] ! 1 then Some b
      else if map p [a, b, c] ! 2 then Some c else None)"
  by simp

lemma find_throwing_by_map:
  "find_throwing p [a, b, c] =
     (case map p [a, b, c] ! 0 of
        Inl e \<Rightarrow> Inl e
      | Inr True \<Rightarrow> Inr (Some a)
      | Inr False \<Rightarrow>
          (case map p [a, b, c] ! 1 of
             Inl e \<Rightarrow> Inl e
           | Inr True \<Rightarrow> Inr (Some b)
           | Inr False \<Rightarrow>
               (case map p [a, b, c] ! 2 of
                  Inl e \<Rightarrow> Inl e
                | Inr True \<Rightarrow> Inr (Some c)
                | Inr False \<Rightarrow> Inr None)))"
  by (simp split: sum.splits bool.splits)

lemma sample_finds:
  "find (county_geoid_match ''32510'') sample_counties = Some county_row_carson \<and>
   find (county_geoid_match ''510'') sample_counties = None \<and>
   find (county_geoid_match ''51'') sample_counties = None \<and>
   find (county_geoid_match ''051'') sample_counties = None \<and>
   find (county_geoid_match ''999'') sample_counties = None \<and>
   find (county_fips_match ''510'') sample_counties = Some county_row_carson \<and>
   find (county_fips_match ''51'') sample_counties = None \<and>
   find (county_fips_match ''051'') sample_counties = None \<and>
   find (county_fips_match ''999'') sample_counties = None \<and>
   find_throwing (county_name_match ''51'') sample_counties = Inr (Some county_row_area51) \<and>
   find_throwing (county_name_match ''051'') sample_counties = Inr None \<and>
   find_throwing (county_name_match ''999'') sample_counties = Inr None \<and>
   find (county_normalized_match ''51'') sample_counties = Some county_row_lander \<and>
   find (county_normalized_match ''051'') sample_counties = Some county_row_lander \<and>
   find (county_normalized_match ''999'') sample_counties = None"
  using sample_geoid_matches sample_fips_matches sample_name_matches sample_normalized_matches
  unfolding sample_counties_def find_by_map find_throwing_by_map
  by simp

text \<open>
  C1, as the code has it. With the state cached, county resolution tries, in this order:
  the exact \<^verbatim>\<open>GEOID\<close> match, the exact \<^verbatim>\<open>fred_county_fips\<close> match, the name-substring match
  and, last, the normalised match. Each strategy takes the first row in array order, and a
  strategy is only tried when all earlier ones found no row; the result is \<^verbatim>\<open>parseInt\<close> of
  the found row's \<^verbatim>\<open>table_id\<close>, or \<^verbatim>\<open>null\<close> when no strategy finds a row.
\<close>

theorem getRedfinId_county_order:
  assumes "cache stateAbbrev = Some stateData"
  shows
   "(find (county_geoid_match area) (counties stateData) = Some r \<longrightarrow>
       getRedfinId cache stateAbbrev area County = Inr (Some (parseInt (getp r ''table_id'')))) \<and>
    (find (county_geoid_match area) (counties stateData) = None \<and>
     find (county_fips_match area) (counties stateData) = Some r \<longrightarrow>
       getRedfinId cache stateAbbrev area County = Inr (Some (parseInt (getp r ''table_id'')))) \<and>
    (find (county_geoid_match area) (counties stateData) = None \<and>
     find (county_fips_match area) (counties stateData) = None \<and>
     find_throwing (county_name_match area) (counties stateData) = Inr (Some r) \<longrightarrow>
       getRedfinId cache stateAbbrev area County = Inr (Some (parseInt (getp r ''table_id'')))) \<and>
    (find (county_geoid_match area) (counties stateData) = None \<and>
     find (county_fips_match area) (counties stateData) = None \<and>
     find_throwing (county_name_match area) (counties stateData) = Inr None \<and>
     find (county_normalized_match area) (counties stateData) = Some r \<longrightarrow>
       getRedfinId cache stateAbbrev area County = Inr (Some (parseInt (getp r ''table_id'')))) \<and>
    (find (county_geoid_match area) (counties stateData) = None \<and>
     find (county_fips_match area) (counties stateData) = None \<and>
     find_throwing (county_name_match area) (counties stateData) = Inr None \<and>
     find (county_normalized_match area) (counties stateData) = None \<longrightarrow>
       getRedfinId cache stateAbbrev area County = Inr None)"
  using assms by (simp add: getRedfinId_def)

theorem getRedfinId_county_order_witness:
  "sample_cache ''NV'' = Some sample_entry \<and>
   getRedfinId sample_cache ''NV'' ''32510'' County = Inr (Some (JInt 300)) \<and>
   getRedfinId sample_cache ''NV'' ''510'' County = Inr (Some (JInt 300)) \<and>
   getRedfinId sample_cache ''NV'' ''51'' County = Inr (Some (JInt 100)) \<and>
   getRedfinId sample_cache ''NV'' ''051'' County = Inr (Some (JInt 200)) \<and>
   getRedfinId sample_cache ''NV'' ''999'' County = Inr None"
proof -
  have cached: "sample_cache ''NV'' = Some sample_entry"
    by (simp add: sample_cache_def)
  have rows: "counties sample_entry = sample_counties"
    by (simp add: sample_entry_def)
  from getRedfinId_county_order [of sample_cache "''NV''" sample_entry "''32510''" county_row_carson]
       getRedfinId_county_order [of sample_cache "''NV''" sample_entry "''510''" county_row_carson]
       getRedfinId_county_order [of sample_cache "''NV''" sample_entry "''51''" county_row_area51]
       getRedfinId_county_order [of sample_cache "''NV''" sample_entry "''051''" county_row_lander]
       getRedfinId_county_order [of sample_cache "''NV''" sample_entry "''999''"]
       cached
  show ?thesis by (simp add: rows sample_finds sample_table_ids)
qed

text \<open>
  C1 as stated fails. For area \<^verbatim>\<open>"51"\<close> both exact matches find nothing and the normalised
  match would find Lander County (table id 200); the code tries the name match before it
  and returns table id 100 of the row whose name contains \<^verbatim>\<open>"51"\<close>.
\<close>

theorem getRedfinId_name_before_normalized_counterexample:
  "find (county_geoid_match ''51'') (counties sample_entry) = None \<and>
   find (county_fips_match ''51'') (counties sample_entry) = None \<and>
   find (county_normalized_match ''51'') (counties sample_entry) = Some county_row_lander \<and>
   parseInt (getp county_row_lander ''table_id'') = JInt 200 \<and>
   getRedfinId sample_cache ''NV'' ''51'' County = Inr (Some (JInt 100)) \<and>
   JInt 100 \<noteq> JInt 200"
  by (simp add: getRedfinId_def sample_cache_def sample_entry_def sample_finds sample_table_ids)

section \<open>Index builder: the map after a build\<close>

lemma set_all_Nil [simp]: "set_all [] m = m"
  by (simp add: set_all_def)

lemma set_all_Cons [simp]: "set_all ((k, v) # ws) m = set_all ws (DAList.update k v m)"
  by (simp add: set_all_def)

lemma set_all_append: "set_all (xs @ ys) m = set_all ys (set_all xs m)"
  by (simp add: set_all_def)

lemma fold_update_map:
  "fold (\<lambda>(a, b) m. DAList.update (f a b) (g a b) m) es m = set_all (map (\<lambda>(a, b). (f a b, g a b)) es) m"
  by (induction es arbitrary: m) auto

lemma fold_update_records:
  "fold (\<lambda>record m. DAList.update (f record) record m) rs m = set_all (map (\<lambda>r. (f r, r)) rs) m"
  by (induction rs arbitrary: m) auto

lemma buildUnifiedLookup_writes:
  "buildUnifiedLookup svc =
     (case redfInIndex svc of
        None \<Rightarrow> svc
      | Some idx \<Rightarrow> svc\<lparr>unifiedLookup := set_all (lookup_writes idx (zipMasterData svc)) (unifiedLookup svc)\<rparr>)"
  by (simp add: buildUnifiedLookup_def lookup_writes_def state_writes_def county_writes_def
        city_writes_def zip_writes_def Let_def fold_update_map set_all_append split: option.splits)

lemma lookup_set_all:
  "DAList.lookup (set_all ws m) k = (case map_of (rev ws) k of Some v \<Rightarrow> Some v | None \<Rightarrow> DAList.lookup m k)"
proof (induction ws arbitrary: m)
  case Nil
  then show ?case by simp
next
  case (Cons w ws)
  obtain k' v' where w: "w = (k', v')" by (cases w)
  show ?case
    by (simp add: w Cons.IH lookup_update map_add_def split: option.splits)
qed







lemma map_of_keyed_find: "map_of (map (\<lambda>r. (f r, r)) rs) k = find (\<lambda>r. f r = k) rs"
  by (induction rs) auto

lemma zipLookup_of_find:
  "DAList.lookup (zipLookup_of zmd) code = find (\<lambda>z. zipcode z = code) (rev zmd)"
  by (simp add: zipLookup_of_def fold_update_records lookup_set_all rev_map map_of_keyed_find
           split: option.splits)

lemma zip_writes_lookup:
  assumes "(code, zipInfo) \<in> set (zip_codes_index idx)" and "distinct (map fst (zip_codes_index idx))"
  shows "map_of (rev (zip_writes idx zmd)) (''zip:'' @ code) =
           Some (unifiedZip idx (zipLookup_of zmd) code zipInfo)"
proof (rule map_of_is_SomeI)
  have "map fst (zip_writes idx zmd) = map (\<lambda>c. ''zip:'' @ c) (map fst (zip_codes_index idx))"
    by (simp add: zip_writes_def case_prod_beta comp_def)
  moreover have "distinct (map (\<lambda>c. ''zip:'' @ c) (map fst (zip_codes_index idx)))"
    using assms(2) by (simp add: distinct_map inj_on_def)
  ultimately show "distinct (map fst (rev (zip_writes idx zmd)))"
    by (simp add: rev_map [symmetric] del: map_map)
  from assms(1)
  show "(''zip:'' @ code, unifiedZip idx (zipLookup_of zmd) code zipInfo) \<in> set (rev (zip_writes idx zmd))"
    unfolding zip_writes_def by force
qed

lemma lookup_set_all_last:
  "map_of (rev zs) k = Some v \<Longrightarrow> DAList.lookup (set_all (as @ zs) m) k = Some v"
  by (simp add: lookup_set_all map_add_def)

lemma lookup_zip_location:
  assumes "redfInIndex svc = Some idx"
    and "(code, zipInfo) \<in> set (zip_codes_index idx)"
    and "distinct (map fst (zip_codes_index idx))"
  shows "DAList.lookup (unifiedLookup (buildUnifiedLookup svc)) (''zip:'' @ code) =
           Some (unifiedZip idx (zipLookup_of (zipMasterData svc)) code zipInfo)"
proof -
  have "DAList.lookup (set_all (lookup_writes idx (zipMasterData svc)) (unifiedLookup svc)) (''zip:'' @ code) =
      Some (unifiedZip idx (zipLookup_of (zipMasterData svc)) code zipInfo)"
    unfolding lookup_writes_def by (rule lookup_set_all_last) (rule zip_writes_lookup [OF assms(2,3)])
  with assms(1) show ?thesis by (simp add: buildUnifiedLookup_writes)
qed






lemma mock_service_index: "redfInIndex mock_service = Some mock_index"
  by (simp add: mock_service_def)

lemma mock_service_data: "zipMasterData mock_service = mock_zipMasterData"
  by (simp add: mock_service_def)








section \<open>Index builder: ZIP locations\<close>

lemma mock_zip_entry: "(''90210'', zipInfo_90210) \<in> set (zip_codes_index mock_index)"
  by (simp add: mock_index_def mock_zip_codes_def zipInfo_90210_def)

lemma mock_zip_keys: "distinct (map fst (zip_codes_index mock_index))"
  by (simp add: mock_index_def mock_zip_codes_def)

lemma mock_state_name: "getStateName mock_index (state_code zipInfo_90210) = ''California''"
  by (simp add: getStateName_def mock_index_def mock_states_def zipInfo_90210_def)

lemma mock_flat_record:
  "find (\<lambda>z. zipcode z = JStr ''90210'') (rev mock_zipMasterData) =
     Some (mock_zip_record ''90210'' ''CA'' ''California'' ''Beverly Hills'' ''Los Angeles County''
             34.0901 (-118.4065) 14000000 0)"
  by (simp add: mock_zipMasterData_def mock_zip_record_def)

lemma mock_flat_record_fields:
  "INTPTLAT (mock_zip_record z sc sn city county lat lon aland awater) = lat \<and>
   INTPTLON (mock_zip_record z sc sn city county lat lon aland awater) = lon \<and>
   has_census_data (mock_zip_record z sc sn city county lat lon aland awater) \<and>
   has_redfin_data (mock_zip_record z sc sn city county lat lon aland awater) \<and>
   has_geometry (mock_zip_record z sc sn city county lat lon aland awater)"
  by (simp add: mock_zip_record_def)

text \<open>
  What the builder does for an entry \<open>(code, zipInfo)\<close> of the index's \<^verbatim>\<open>zip_codes\<close> (an
  object, so its keys are distinct): the built map holds under \<^verbatim>\<open>"zip:" + code\<close> a location
  with that ZIP code, the entry's state code and the path \<^verbatim>\<open>"<state name> > <code>"\<close>. The
  auxiliary map is read with the string \<open>code\<close> as key, and finds the last flat record whose
  \<^verbatim>\<open>zipcode\<close> is that very string: the coordinates and the three availability flags are
  then that record's. When no record has that string there, the coordinates are \<open>(0, 0)\<close>
  and the flags are all false, whatever records with the number as \<^verbatim>\<open>zipcode\<close> there are.
\<close>

lemma zip_location_built:
  assumes "redfInIndex svc = Some idx"
    and "(code, zipInfo) \<in> set (zip_codes_index idx)"
    and "distinct (map fst (zip_codes_index idx))"
  shows "\<exists>loc. DAList.lookup (unifiedLookup (buildUnifiedLookup svc)) (''zip:'' @ code) = Some loc \<and>
           zipCode loc = Some code \<and>
           stateCode loc = state_code zipInfo \<and>
           hierarchicalPath loc = getStateName idx (state_code zipInfo) @ '' > '' @ code \<and>
           (case find (\<lambda>z. zipcode z = JStr code) (rev (zipMasterData svc)) of
              None \<Rightarrow>
                coordinates loc = (0, 0) \<and>
                hasData loc = \<lparr>census = False, redfin = False, geometry = False\<rparr>
            | Some z \<Rightarrow>
                coordinates loc = (INTPTLAT z, INTPTLON z) \<and>
                hasData loc = \<lparr>census = has_census_data z, redfin = has_redfin_data z,
                                geometry = has_geometry z\<rparr>)"
  unfolding lookup_zip_location [OF assms]
  by (simp add: unifiedZip_def Let_def zipLookup_of_find split: option.splits)

text \<open>On the substitute dataset, whose \<^verbatim>\<open>zipcode\<close>s are strings, the 90210 scenario comes out.\<close>

lemma mock_zip_location_built:
  "\<exists>loc. DAList.lookup (unifiedLookup (buildUnifiedLookup mock_service)) ''zip:90210'' = Some loc \<and>
         zipCode loc = Some ''90210'' \<and>
         hierarchicalPath loc = ''California > 90210'' \<and>
         coordinates loc = (34.0901, -118.4065) \<and>
         hasData loc = \<lparr>census = True, redfin = True, geometry = True\<rparr>"
  using zip_location_built
          [of mock_service mock_index "''90210''" zipInfo_90210, OF mock_service_index mock_zip_entry mock_zip_keys]
  by (auto simp add: mock_service_data mock_state_name mock_flat_record mock_flat_record_fields)

lemma loaded_service_index: "redfInIndex loaded_service = Some mock_index"
  by (simp add: loaded_service_def)

lemma loaded_service_data: "zipMasterData loaded_service = loaded_zipMasterData"
  by (simp add: loaded_service_def)

lemma loaded_flat_record:
  "find (\<lambda>z. zipcode z = JStr ''90210'') (rev loaded_zipMasterData) = None"
  by (simp add: loaded_zipMasterData_def loaded_record_90210_def mock_zip_record_def)

lemma loaded_record_90210_fields:
  "zipcode loaded_record_90210 = JNum (JInt 90210) \<and>
   INTPTLAT loaded_record_90210 = 34.0901 \<and>
   INTPTLON loaded_record_90210 = -118.4065 \<and>
   has_census_data loaded_record_90210 \<and>
   has_redfin_data loaded_record_90210 \<and>
   has_geometry loaded_record_90210"
  by (simp add: loaded_record_90210_def mock_zip_record_def)

text \<open>
  C6 fails on the code. With the flat records as \<^verbatim>\<open>initialize()\<close> holds them after reading
  \<^verbatim>\<open>zip_master_index.csv\<close>, the record of ZIP 90210 is there, with its coordinates and all
  three flags true, but its \<^verbatim>\<open>zipcode\<close> is the number 90210. The auxiliary map is keyed by
  that number and read with the string \<^verbatim>\<open>"90210"\<close>, so the record is not found: the
  location under \<^verbatim>\<open>"zip:90210"\<close> has the coordinates \<open>(0, 0)\<close> and all flags false.
\<close>

theorem buildUnifiedLookup_numeric_zipcode_misses:
  "zipMasterData loaded_service = loaded_zipMasterData \<and>
   loaded_record_90210 \<in> set loaded_zipMasterData \<and>
   zipcode loaded_record_90210 = JNum (JInt 90210) \<and>
   js_toString (zipcode loaded_record_90210) = ''90210'' \<and>
   (INTPTLAT loaded_record_90210, INTPTLON loaded_record_90210) = (34.0901, -118.4065) \<and>
   has_geometry loaded_record_90210 \<and>
   (\<exists>loc. DAList.lookup (unifiedLookup (buildUnifiedLookup loaded_service)) ''zip:90210'' = Some loc \<and>
          zipCode loc = Some ''90210'' \<and>
          hierarchicalPath loc = ''California > 90210'' \<and>
          coordinates loc = (0, 0) \<and>
          hasData loc = \<lparr>census = False, redfin = False, geometry = False\<rparr>)"
proof -
  have listed: "loaded_record_90210 \<in> set loaded_zipMasterData"
    by (simp add: loaded_zipMasterData_def)
  have printed: "js_toString (zipcode loaded_record_90210) = ''90210''"
    by (simp add: loaded_record_90210_fields number_eval)
  have missed:
    "\<exists>loc. DAList.lookup (unifiedLookup (buildUnifiedLookup loaded_service)) ''zip:90210'' = Some loc \<and>
          zipCode loc = Some ''90210'' \<and>
          hierarchicalPath loc = ''California > 90210'' \<and>
          coordinates loc = (0, 0) \<and>
          hasData loc = \<lparr>census = False, redfin = False, geometry = False\<rparr>"
    using zip_location_built
            [of loaded_service mock_index "''90210''" zipInfo_90210, OF loaded_service_index mock_zip_entry mock_zip_keys]
    by (auto simp add: loaded_service_data mock_state_name loaded_flat_record)
  from listed printed missed show ?thesis
    by (simp add: loaded_service_data loaded_record_90210_fields)
qed

section \<open>Queries: the cities of a state\<close>

lemma set_insert_by: "set (insert_by cmp x xs) = insert x (set xs)"
  by (induction xs) auto

lemma set_js_sort: "set (js_sort cmp xs) = set xs"
  by (induction xs) (simp_all add: js_sort_def set_insert_by)

lemma lookup_in_values:
  "DAList.lookup (unifiedLookup svc) k = Some loc \<Longrightarrow> loc \<in> set (lookup_values svc)"
  by (force simp: lookup_values_def lookup.rep_eq dest: map_of_SomeD)

lemma initialize_without_files_build:
  "initialize_without_files = (buildUnifiedLookup mock_service)\<lparr>isLoaded := True\<rparr>"
  by (simp add: initialize_without_files_def initializeMockData_def mock_service_def)

lemma location_90210_stored:
  "DAList.lookup (unifiedLookup initialize_without_files) ''zip:90210'' = Some location_90210"
  using lookup_zip_location [OF mock_service_index mock_zip_entry mock_zip_keys]
  by (simp add: initialize_without_files_build location_90210_def mock_service_data)

lemma location_90210_fields:
  "zipCode location_90210 = Some ''90210'' \<and>
   stateCode location_90210 = ''CA'' \<and>
   hierarchicalPath location_90210 = ''California > 90210''"
  by (simp add: location_90210_def unifiedZip_def Let_def mock_state_name)
     (simp add: zipInfo_90210_def)

lemma location_90210_path_parts:
  "js_split ''California > 90210'' '' > '' = [''California'', ''90210'']"
  by (simp add: js_split_def)

lemma location_90210_no_county: "\<not> str_includes ''California > 90210'' ''County''"
  by simp

text \<open>
  C7 fails on the code. On the substitute dataset the service installs when no data file
  is found, the cities query for California returns the location of ZIP 90210: its path
  \<^verbatim>\<open>"California > 90210"\<close> has two segments and no \<^verbatim>\<open>"County"\<close>, and the query never looks
  at the ZIP code, which \<^verbatim>\<open>getStats\<close> tests first and by which it counts the same
  location as a \<^verbatim>\<open>zip\<close>. This holds for every collation \<^verbatim>\<open>localeCompare\<close> may implement.
\<close>

theorem getCitiesInState_returns_zip_location:
  "\<exists>locs. getCitiesInState localeCompare initialize_without_files ''CA'' = Inr locs \<and>
          location_90210 \<in> set locs \<and>
          zipCode location_90210 = Some ''90210'' \<and>
          hierarchicalPath location_90210 = ''California > 90210'' \<and>
          stats_type location_90210 = ''zip''"
proof -
  have loaded: "isLoaded initialize_without_files"
    by (simp add: initialize_without_files_build)
  have listed: "location_90210 \<in> set (lookup_values initialize_without_files)"
    by (rule lookup_in_values) (rule location_90210_stored)
  have counted: "stats_type location_90210 = ''zip''"
    by (simp add: stats_type_def Let_def location_90210_fields location_90210_path_parts)
  from loaded listed counted show ?thesis
    by (simp add: getCitiesInState_def set_js_sort location_90210_fields location_90210_path_parts
          location_90210_no_county)
qed

end
